theory Spec2Isabelle
  imports Complex_Main "HOL-Library.AList"
begin

section \<open>RSSI distance estimation (src/src/distance-estimator.js)\<close>

text \<open>
  The module computes on JavaScript numbers. They are modelled as real numbers: the
  arithmetic of the source is kept expression by expression, and what IEEE doubles add
  (rounding of each operation, NaN, the infinities) is outside the model. \<open>Math.round x\<close>
  is \<open>\<lfloor>x + 1/2\<rfloor>\<close> (halves go up), \<open>Math.pow(10, e)\<close> is \<open>10 powr e\<close>, \<open>Math.log10\<close> is
  \<open>log 10\<close> and \<open>Math.sqrt\<close> is \<open>sqrt\<close>. \<open>Date.now()\<close> is an argument of the operation that
  reads the clock.

  A property read off a JavaScript object is \<open>undefined\<close> when the object has no such key,
  which is not the value \<open>null\<close>; the type \<open>js\<close> keeps the two apart.
\<close>

datatype 'a js = Undefined | Null | Val 'a

definition Math_round :: "real \<Rightarrow> real" where
  "Math_round x = of_int \<lfloor>x + 1 / 2\<rfloor>"

subsection \<open>Signal models\<close>

record SignalModel =
  name :: string
  referenceRssi :: real
  referenceDistance :: real
  pathLossExponent :: real
  minRssi :: real
  maxRssi :: real
  maxReliableDistance :: real

definition BLE :: SignalModel where
  "BLE = \<lparr>name = ''Bluetooth Low Energy'', referenceRssi = -59, referenceDistance = 1,
     pathLossExponent = 2, minRssi = -100, maxRssi = -20, maxReliableDistance = 30\<rparr>"

definition WIFI_2G :: SignalModel where
  "WIFI_2G = \<lparr>name = ''WiFi 2.4GHz'', referenceRssi = -40, referenceDistance = 1,
     pathLossExponent = 27 / 10, minRssi = -100, maxRssi = -10, maxReliableDistance = 50\<rparr>"

definition WIFI_5G :: SignalModel where
  "WIFI_5G = \<lparr>name = ''WiFi 5GHz'', referenceRssi = -42, referenceDistance = 1,
     pathLossExponent = 3, minRssi = -95, maxRssi = -10, maxReliableDistance = 40\<rparr>"

definition LORA :: SignalModel where
  "LORA = \<lparr>name = ''LoRa'', referenceRssi = -30, referenceDistance = 1,
     pathLossExponent = 23 / 10, minRssi = -140, maxRssi = -10, maxReliableDistance = 2000\<rparr>"

text \<open>\<open>SignalModels[radioType]\<close>: the table has exactly these four keys.\<close>

definition SignalModels :: "string \<Rightarrow> SignalModel option" where
  "SignalModels radioType =
     (if radioType = ''BLE'' then Some BLE
      else if radioType = ''WIFI_2G'' then Some WIFI_2G
      else if radioType = ''WIFI_5G'' then Some WIFI_5G
      else if radioType = ''LORA'' then Some LORA
      else None)"

subsection \<open>class KalmanFilter\<close>

record KalmanFilter =
  Q :: real
  R :: real
  estimate :: real
  errorCovariance :: real
  sampleCount :: nat

definition KalmanFilter_new :: "real \<Rightarrow> real \<Rightarrow> real \<Rightarrow> real \<Rightarrow> KalmanFilter" where
  "KalmanFilter_new processNoise measurementNoise initialEstimate initialError =
     \<lparr>Q = processNoise, R = measurementNoise, estimate = initialEstimate,
      errorCovariance = initialError, sampleCount = 0\<rparr>"

text \<open>\<open>new KalmanFilter()\<close>: the constructor's default arguments.\<close>

definition KalmanFilter_default :: KalmanFilter where
  "KalmanFilter_default = KalmanFilter_new (1 / 8) 4 (-60) 1"

text \<open>\<open>update(measurement)\<close> returns the new estimate and leaves the filter updated.\<close>

definition update :: "real \<Rightarrow> KalmanFilter \<Rightarrow> real \<times> KalmanFilter" where
  "update measurement kf =
     (let predictedEstimate = estimate kf;
          predictedError = errorCovariance kf + Q kf;
          kalmanGain = predictedError / (predictedError + R kf);
          kf1 = kf\<lparr>estimate := predictedEstimate + kalmanGain * (measurement - predictedEstimate)\<rparr>;
          kf2 = kf1\<lparr>errorCovariance := (1 - kalmanGain) * predictedError\<rparr>;
          kf3 = kf2\<lparr>sampleCount := sampleCount kf2 + 1\<rparr>
      in (estimate kf3, kf3))"

definition reset_filter :: "real \<Rightarrow> KalmanFilter \<Rightarrow> KalmanFilter" where
  "reset_filter initialEstimate kf =
     kf\<lparr>estimate := initialEstimate, errorCovariance := 1, sampleCount := 0\<rparr>"

definition getConfidence :: "KalmanFilter \<Rightarrow> real" where
  "getConfidence kf =
     (let maxError = 10;
          confidence = 1 - min (errorCovariance kf / maxError) 1
      in max 0 confidence)"

text \<open>A run of \<open>update\<close> calls, one per measurement, in order.\<close>

fun feed :: "real list \<Rightarrow> KalmanFilter \<Rightarrow> KalmanFilter" where
  "feed [] kf = kf"
| "feed (m # ms) kf = feed ms (snd (update m kf))"

subsection \<open>class DistanceEstimator\<close>

record Reading =
  rssi :: real
  timestamp :: nat

record DistanceEstimator =
  model :: SignalModel
  kalmanFilter :: KalmanFilter
  rawHistory :: "Reading list"
  maxHistoryLength :: nat

text \<open>
  \<open>new DistanceEstimator(radioType, customModel)\<close>:
  \<open>customModel || SignalModels[radioType] || SignalModels.BLE\<close>; \<open>None\<close> is the default
  \<open>null\<close>. The filter's third argument is the model's reference RSSI, its fourth the
  default 1.

  Two things the record does not hold. Without a custom model the source stores the entry
  of \<open>SignalModels\<close> itself, not a copy, so \<open>calibrate\<close> on such an estimator writes
  through to the table and to every estimator that shares the entry, those constructed
  later included. The record is one estimator's view of its model, and
  \<open>DistanceEstimator_new\<close> is the construction before any such \<open>calibrate\<close>: the results
  below are about one estimator, or about the estimators of a \<open>MultiRadioEstimator\<close>,
  whose methods never assign to a model (\<open>reachable_model_is_table_entry\<close>). And for a
  radio type that names a member of \<open>Object.prototype\<close> (\<open>constructor\<close>, \<open>toString\<close>, ...)
  the source's lookup finds that member, an object without the numeric fields of a model,
  on which the source computes with \<open>undefined\<close>, outside the numbers modelled here; the
  definition gives such a radio type the BLE model. \<open>MultiRadioEstimator\<close> never
  constructs an estimator for such a name (\<open>getEstimator\<close>).
\<close>

definition DistanceEstimator_new :: "string \<Rightarrow> SignalModel option \<Rightarrow> DistanceEstimator" where
  "DistanceEstimator_new radioType customModel =
     (let m = (case customModel of
                 Some c \<Rightarrow> c
               | None \<Rightarrow> (case SignalModels radioType of Some t \<Rightarrow> t | None \<Rightarrow> BLE))
      in \<lparr>model = m, kalmanFilter = KalmanFilter_new (1 / 8) 4 (referenceRssi m) 1,
          rawHistory = [], maxHistoryLength = 50\<rparr>)"

text \<open>
  The object \<open>estimateDistance\<close> returns. The rejection object has the keys \<open>distance\<close>,
  \<open>confidence\<close>, \<open>filteredRssi\<close>, \<open>rawRssi\<close>, \<open>error\<close>; the success object has \<open>distance\<close>,
  \<open>confidence\<close>, \<open>filteredRssi\<close>, \<open>rawRssi\<close>, \<open>model\<close>, \<open>reliable\<close>. A key an object lacks
  is \<open>Undefined\<close> here. The key \<open>model\<close> is the field \<open>model_name\<close>.
\<close>

record DistanceEstimate =
  distance :: "real js"
  confidence :: real
  filteredRssi :: real
  rawRssi :: real
  model_name :: "string js"
  reliable :: "bool js"
  error :: "string js"

definition calculateRssiStability :: "DistanceEstimator \<Rightarrow> real" where
  "calculateRssiStability s =
     (if length (rawHistory s) < 3 then 1 / 2
      else
        let values = map rssi (rawHistory s);
            mean = foldl (\<lambda>a b. a + b) 0 values / real (length values);
            variance = foldl (\<lambda>sum val. sum + (val - mean)\<^sup>2) 0 values / real (length values);
            stdDev = sqrt variance;
            maxStdDev = 10;
            stability = 1 - min (stdDev / maxStdDev) 1
        in stability)"

definition calculateConfidence :: "real \<Rightarrow> real \<Rightarrow> DistanceEstimator \<Rightarrow> real" where
  "calculateConfidence fRssi dst s =
     (let filterConfidence = getConfidence (kalmanFilter s);
          sampleConfidence = min (real (length (rawHistory s)) / 10) 1;
          varianceConfidence = calculateRssiStability s;
          distanceConfidence =
            (if dst \<le> maxReliableDistance (model s)
             then 1 - (dst / maxReliableDistance (model s)) * (1 / 2)
             else 1 / 10);
          conf = filterConfidence * (1 / 4) + sampleConfidence * (1 / 4)
               + varianceConfidence * (3 / 10) + distanceConfidence * (1 / 5)
      in Math_round (conf * 100) / 100)"

text \<open>
  \<open>estimateDistance(rssi, useFilter)\<close>; \<open>now\<close> is what \<open>Date.now()\<close> returns when the
  reading is stored.
\<close>

definition estimateDistance ::
  "real \<Rightarrow> bool \<Rightarrow> nat \<Rightarrow> DistanceEstimator \<Rightarrow> DistanceEstimate \<times> DistanceEstimator" where
  "estimateDistance r useFilter now s =
     (if r < minRssi (model s) \<or> r > maxRssi (model s) then
        (\<lparr>distance = Null, confidence = 0, filteredRssi = r, rawRssi = r,
          model_name = Undefined, reliable = Undefined,
          error = Val ''RSSI out of valid range''\<rparr>, s)
      else
        let s1 = s\<lparr>rawHistory := rawHistory s @ [\<lparr>rssi = r, timestamp = now\<rparr>]\<rparr>;
            s2 = (if length (rawHistory s1) > maxHistoryLength s1
                  then s1\<lparr>rawHistory := tl (rawHistory s1)\<rparr> else s1);
            (fRssi, s3) =
              (if useFilter
               then (let (e, kf) = update r (kalmanFilter s2) in (e, s2\<lparr>kalmanFilter := kf\<rparr>))
               else (r, s2));
            exponent = (referenceRssi (model s3) - fRssi) / (10 * pathLossExponent (model s3));
            dst = referenceDistance (model s3) * (10 powr exponent);
            conf = calculateConfidence fRssi dst s3
        in (\<lparr>distance = Val (Math_round (dst * 100) / 100), confidence = conf,
             filteredRssi = Math_round (fRssi * 10) / 10, rawRssi = r,
             model_name = Val (name (model s3)),
             reliable = Val (dst \<le> maxReliableDistance (model s3)),
             error = Undefined\<rparr>, s3))"

text \<open>
  \<open>calibrate(knownDistance, rssiSamples)\<close>. The test of the first branch is the source's
  \<open>Math.abs(knownDistance - 1.0) < 0.1\<close>.
\<close>

definition calibrate :: "real \<Rightarrow> real list \<Rightarrow> DistanceEstimator \<Rightarrow> bool \<times> DistanceEstimator" where
  "calibrate knownDistance rssiSamples s =
     (if length rssiSamples < 5 then (False, s)
      else
        let meanRssi = foldl (\<lambda>a b. a + b) 0 rssiSamples / real (length rssiSamples);
            s1 = (if \<bar>knownDistance - 1\<bar> < 1 / 10
                  then s\<lparr>model := (model s)\<lparr>referenceRssi := Math_round meanRssi\<rparr>\<rparr>
                  else
                    let estimatedRssiAt1m =
                          meanRssi + 10 * pathLossExponent (model s) * log 10 knownDistance
                    in s\<lparr>model := (model s)\<lparr>referenceRssi := Math_round estimatedRssiAt1m\<rparr>\<rparr>)
        in (True, s1\<lparr>kalmanFilter := reset_filter meanRssi (kalmanFilter s1)\<rparr>))"

text \<open>
  \<open>getStats()\<close> returns \<open>{samples: 0}\<close> on an empty history and the full object otherwise.
  \<open>Math.min(...values)\<close> and \<open>Math.max(...values)\<close> are only evaluated on a non-empty list.
\<close>

record Stats =
  samples :: nat
  mean_s :: "real js"
  min_s :: "real js"
  max_s :: "real js"
  range_s :: "real js"
  stdDev_s :: "real js"
  filteredRssi_s :: "real js"
  filterConfidence_s :: "real js"

definition getStats :: "DistanceEstimator \<Rightarrow> Stats" where
  "getStats s =
     (if length (rawHistory s) = 0 then
        \<lparr>samples = 0, mean_s = Undefined, min_s = Undefined, max_s = Undefined,
         range_s = Undefined, stdDev_s = Undefined, filteredRssi_s = Undefined,
         filterConfidence_s = Undefined\<rparr>
      else
        let values = map rssi (rawHistory s);
            mean = foldl (\<lambda>a b. a + b) 0 values / real (length values);
            mn = fold min (tl values) (hd values);
            mx = fold max (tl values) (hd values);
            variance = foldl (\<lambda>sum val. sum + (val - mean)\<^sup>2) 0 values / real (length values)
        in \<lparr>samples = length values,
            mean_s = Val (Math_round (mean * 10) / 10),
            min_s = Val mn, max_s = Val mx, range_s = Val (mx - mn),
            stdDev_s = Val (Math_round (sqrt variance * 10) / 10),
            filteredRssi_s = Val (Math_round (estimate (kalmanFilter s) * 10) / 10),
            filterConfidence_s = Val (getConfidence (kalmanFilter s))\<rparr>)"

definition reset_estimator :: "DistanceEstimator \<Rightarrow> DistanceEstimator" where
  "reset_estimator s =
     s\<lparr>rawHistory := [],
       kalmanFilter := reset_filter (referenceRssi (model s)) (kalmanFilter s)\<rparr>"

text \<open>The calls a client makes on one estimator, and a run of them in order.\<close>

datatype call =
  EstimateDistance real bool nat
| Calibrate real "real list"
| Reset

fun exec :: "call \<Rightarrow> DistanceEstimator \<Rightarrow> DistanceEstimator" where
  "exec (EstimateDistance r useFilter now) s = snd (estimateDistance r useFilter now s)"
| "exec (Calibrate knownDistance rssiSamples) s = snd (calibrate knownDistance rssiSamples s)"
| "exec Reset s = reset_estimator s"

fun execs :: "call list \<Rightarrow> DistanceEstimator \<Rightarrow> DistanceEstimator" where
  "execs [] s = s"
| "execs (c # cs) s = execs cs (exec c s)"

subsection \<open>class MultiRadioEstimator\<close>

text \<open>
  \<open>this.estimators\<close> is an object keyed by radio type that is read with
  \<open>Object.entries\<close>: an association list of its own keys in the order \<open>Object.entries\<close>
  enumerates them.
\<close>

record MultiRadioEstimator =
  estimators :: "(string \<times> DistanceEstimator) list"
  fusionWeights :: "(string \<times> real) list"

definition MultiRadioEstimator_new :: MultiRadioEstimator where
  "MultiRadioEstimator_new =
     \<lparr>estimators = [],
      fusionWeights = [(''BLE'', 1), (''WIFI_2G'', 4 / 5), (''WIFI_5G'', 7 / 10), (''LORA'', 1 / 2)]\<rparr>"

text \<open>
  Own keys are enumerated with the array indices first, in ascending numeric order, and
  the other strings after them in the order of their creation. An array index is the
  canonical decimal numeral of a number below \<open>2^32 - 1\<close>. \<open>put_new\<close> is the creation of
  a key the object does not have yet.
\<close>

definition decimal :: "string \<Rightarrow> nat" where
  "decimal k = foldl (\<lambda>n c. 10 * n + (of_char c - 48)) 0 k"

definition is_array_index :: "string \<Rightarrow> bool" where
  "is_array_index k \<longleftrightarrow>
     k \<noteq> [] \<and> list_all (\<lambda>c. c \<in> set ''0123456789'') k
     \<and> (k = ''0'' \<or> hd k \<noteq> CHR ''0'') \<and> decimal k < 4294967295"

definition comes_before :: "string \<Rightarrow> string \<times> 'a \<Rightarrow> bool" where
  "comes_before k = (\<lambda>(k', v). is_array_index k' \<and> decimal k' < decimal k)"

definition put_new :: "string \<Rightarrow> 'a \<Rightarrow> (string \<times> 'a) list \<Rightarrow> (string \<times> 'a) list" where
  "put_new k v al =
     (if is_array_index k
      then takeWhile (comes_before k) al @ (k, v) # dropWhile (comes_before k) al
      else al @ [(k, v)])"

text \<open>
  \<open>this.estimators\<close> starts as \<open>{}\<close>, so a read of a key that is not an own key falls
  through to \<open>Object.prototype\<close>. For the names below the read yields a function (for
  \<open>__proto__\<close> the prototype object): a truthy value that is not an estimator.
  \<open>getEstimator\<close> then creates nothing and returns that value, \<open>None\<close> here, and
  \<open>addReading\<close> throws a \<open>TypeError\<close> when it calls \<open>estimateDistance\<close> on it.
\<close>

definition Object_prototype_keys :: "string list" where
  "Object_prototype_keys =
     [''constructor'', ''__defineGetter__'', ''__defineSetter__'', ''hasOwnProperty'',
      ''__lookupGetter__'', ''__lookupSetter__'', ''isPrototypeOf'', ''propertyIsEnumerable'',
      ''toString'', ''valueOf'', ''__proto__'', ''toLocaleString'']"

datatype js_error = TypeError

definition getEstimator ::
  "string \<Rightarrow> MultiRadioEstimator \<Rightarrow> DistanceEstimator option \<times> MultiRadioEstimator" where
  "getEstimator radioType ms =
     (case map_of (estimators ms) radioType of
        Some e \<Rightarrow> (Some e, ms)
      | None \<Rightarrow>
          if radioType \<in> set Object_prototype_keys then (None, ms)
          else
            (let e = DistanceEstimator_new radioType None
             in (Some e, ms\<lparr>estimators := put_new radioType e (estimators ms)\<rparr>)))"

text \<open>
  \<open>addReading\<close> calls \<open>estimateDistance(rssi)\<close> on the estimator of the radio type, which
  is mutated in place: the entry of the list is replaced.
\<close>

definition addReading ::
  "string \<Rightarrow> real \<Rightarrow> nat \<Rightarrow> MultiRadioEstimator \<Rightarrow>
     js_error + DistanceEstimate \<times> MultiRadioEstimator" where
  "addReading radioType r now ms =
     (case getEstimator radioType ms of
        (None, ms1) \<Rightarrow> Inl TypeError
      | (Some e, ms1) \<Rightarrow>
          (let (res, e') = estimateDistance r True now e
           in Inr (res, ms1\<lparr>estimators := AList.update radioType e' (estimators ms1)\<rparr>)))"

text \<open>
  The multi-radio estimator after a call of \<open>addReading\<close>, returned or thrown: the call
  that throws has changed nothing.
\<close>

definition after_addReading ::
  "string \<Rightarrow> real \<Rightarrow> nat \<Rightarrow> MultiRadioEstimator \<Rightarrow> MultiRadioEstimator" where
  "after_addReading radioType r now ms =
     (case addReading radioType r now ms of Inl err \<Rightarrow> ms | Inr (res, ms') \<Rightarrow> ms')"

text \<open>An entry of \<open>breakdown\<close>: \<open>{radioType, distance, confidence, weight}\<close>.\<close>

record Source =
  src_radioType :: string
  src_distance :: real
  src_confidence :: real
  src_weight :: real

text \<open>\<open>this.fusionWeights[radioType] || 0.5\<close>: a missing or zero weight gives 0.5.\<close>

definition fusionWeight :: "(string \<times> real) list \<Rightarrow> string \<Rightarrow> real" where
  "fusionWeight fw radioType =
     (case map_of fw radioType of
        None \<Rightarrow> 1 / 2
      | Some w \<Rightarrow> if w = 0 then 1 / 2 else w)"

text \<open>
  The first loop of \<open>getFusedEstimate\<close>, over \<open>Object.entries(this.estimators)\<close>. It
  returns the estimates pushed and the entries as the calls of \<open>estimateDistance\<close> leave
  them; \<open>nows radioType\<close> is the clock at the call made for that radio type. With
  \<open>samples > 0\<close> the object of \<open>getStats\<close> has the key \<open>filteredRssi\<close>, and
  \<open>estimate.distance\<close> is \<open>null\<close> or a number.
\<close>

fun collect ::
  "(string \<Rightarrow> nat) \<Rightarrow> (string \<times> real) list \<Rightarrow> (string \<times> DistanceEstimator) list \<Rightarrow>
     Source list \<times> (string \<times> DistanceEstimator) list" where
  "collect nows fw [] = ([], [])"
| "collect nows fw ((radioType, estimator) # rest) =
     (let stats = getStats estimator;
          (pushed, estimator') =
            (if samples stats > 0 then
               (case filteredRssi_s stats of
                  Val f \<Rightarrow>
                    (let (est, e') = estimateDistance f False (nows radioType) estimator
                     in (case distance est of
                           Val dv \<Rightarrow>
                             ([\<lparr>src_radioType = radioType, src_distance = dv,
                                src_confidence = confidence est,
                                src_weight = fusionWeight fw radioType\<rparr>], e')
                         | _ \<Rightarrow> ([], e')))
                | _ \<Rightarrow> ([], estimator))
             else ([], estimator));
          (more, rest') = collect nows fw rest
      in (pushed @ more, (radioType, estimator') # rest'))"

record FusedEstimate =
  fused_distance :: "real js"
  fused_confidence :: real
  sources :: nat
  breakdown :: "Source list js"
  fused_error :: "string js"

text \<open>
  The second loop, with its three accumulators, then the object returned.
  \<open>fusedDistance ? ... : null\<close> is \<open>null\<close> for a fused distance that is \<open>null\<close> or zero.
\<close>

definition accumulate :: "Source list \<Rightarrow> real \<times> real \<times> real" where
  "accumulate estimates =
     foldl (\<lambda>(totalWeight, weightedDistance, maxConfidence) est.
              let effectiveWeight = src_weight est * src_confidence est
              in (totalWeight + effectiveWeight,
                  weightedDistance + src_distance est * effectiveWeight,
                  max maxConfidence (src_confidence est)))
           (0, 0, 0) estimates"

definition getFusedEstimate ::
  "(string \<Rightarrow> nat) \<Rightarrow> MultiRadioEstimator \<Rightarrow> FusedEstimate \<times> MultiRadioEstimator" where
  "getFusedEstimate nows ms =
     (let (estimates, es') = collect nows (fusionWeights ms) (estimators ms);
          ms' = ms\<lparr>estimators := es'\<rparr>
      in if length estimates = 0 then
           (\<lparr>fused_distance = Null, fused_confidence = 0, sources = 0,
             breakdown = Undefined, fused_error = Val ''No valid estimates available''\<rparr>, ms')
         else
           let (totalWeight, weightedDistance, maxConfidence) = accumulate estimates;
               fusedDistance =
                 (if totalWeight > 0 then Val (weightedDistance / totalWeight) else Null)
           in (\<lparr>fused_distance =
                  (case fusedDistance of
                     Val fd \<Rightarrow> if fd \<noteq> 0 then Val (Math_round (fd * 100) / 100) else Null
                   | _ \<Rightarrow> Null),
                fused_confidence =
                  Math_round (((maxConfidence * real (length estimates)) / 3) * 100) / 100,
                sources = length estimates,
                breakdown = Val estimates,
                fused_error = Undefined\<rparr>, ms'))"

definition reset_multi :: "MultiRadioEstimator \<Rightarrow> MultiRadioEstimator" where
  "reset_multi ms = ms\<lparr>estimators := map (\<lambda>(k, e). (k, reset_estimator e)) (estimators ms)\<rparr>"

text \<open>The states a client reaches through the methods of the class.\<close>

inductive reachable :: "MultiRadioEstimator \<Rightarrow> bool" where
  reachable_new: "reachable MultiRadioEstimator_new"
| reachable_addReading: "reachable ms \<Longrightarrow> reachable (after_addReading radioType r now ms)"
| reachable_getFusedEstimate: "reachable ms \<Longrightarrow> reachable (snd (getFusedEstimate nows ms))"
| reachable_reset: "reachable ms \<Longrightarrow> reachable (reset_multi ms)"

subsection \<open>Auxiliary notions for the proofs\<close>

text \<open>
  The filter states on which the gain lies between 0 and 1. The constructor of
  \<open>DistanceEstimator\<close> builds one (\<open>Q = 0.125\<close>, \<open>R = 4\<close>, error covariance 1), and
  \<open>update\<close> and \<open>reset\<close> keep it.
\<close>

definition filter_ok :: "KalmanFilter \<Rightarrow> bool" where
  "filter_ok kf \<longleftrightarrow> 0 \<le> Q kf \<and> 0 < R kf \<and> 0 \<le> errorCovariance kf"

text \<open>
  The error covariance after \<open>n\<close> updates, from the constants and the initial error
  covariance alone, and the factor by which \<open>n\<close> updates with one constant measurement
  shrink the distance from the estimate to the measurement.
\<close>

fun covarianceAfter :: "nat \<Rightarrow> real \<Rightarrow> real \<Rightarrow> real \<Rightarrow> real" where
  "covarianceAfter 0 q r p = p"
| "covarianceAfter (Suc n) q r p =
     covarianceAfter n q r ((1 - (p + q) / (p + q + r)) * (p + q))"

fun residualAfter :: "nat \<Rightarrow> real \<Rightarrow> real \<Rightarrow> real \<Rightarrow> real" where
  "residualAfter 0 q r p = 1"
| "residualAfter (Suc n) q r p =
     (1 - (p + q) / (p + q + r)) * residualAfter n q r ((1 - (p + q) / (p + q + r)) * (p + q))"

text \<open>
  The constraints of a signal model that the distance formula relies on: a positive
  path-loss exponent and a reference distance that is not negative. The four built-in
  models satisfy them, and \<open>calibrate\<close> keeps them.
\<close>

definition model_ok :: "SignalModel \<Rightarrow> bool" where
  "model_ok m \<longleftrightarrow> 0 < pathLossExponent m \<and> 0 \<le> referenceDistance m"

text \<open>
  A run of \<open>estimateDistance\<close> calls given by their arguments and clock readings, and the
  history entries these calls store.
\<close>

definition readings :: "(real \<times> bool \<times> nat) list \<Rightarrow> call list" where
  "readings xs = map (\<lambda>(r, useFilter, now). EstimateDistance r useFilter now) xs"

definition stored :: "(real \<times> bool \<times> nat) list \<Rightarrow> Reading list" where
  "stored xs = map (\<lambda>(r, useFilter, now). \<lparr>rssi = r, timestamp = now\<rparr>) xs"

text \<open>
  The estimator \<open>getFusedEstimate\<close> leaves in place of an estimator: untouched when the
  history is empty, else after \<open>estimateDistance(stats.filteredRssi, false)\<close>.
\<close>

definition refreshed :: "nat \<Rightarrow> DistanceEstimator \<Rightarrow> DistanceEstimator" where
  "refreshed now e =
     (if rawHistory e = [] then e
      else snd (estimateDistance (Math_round (estimate (kalmanFilter e) * 10) / 10) False now e))"

text \<open>
  An example state: the estimator of a model after two filtered readings at the model's
  reference RSSI, stored at the clock readings 10 and 20, and the multi-radio estimator
  after two such readings on each of the four built-in radio types.
\<close>

definition twice_at_reference :: "SignalModel \<Rightarrow> DistanceEstimator" where
  "twice_at_reference m =
     \<lparr>model = m,
      kalmanFilter = \<lparr>Q = 1 / 8, R = 4, estimate = referenceRssi m,
                      errorCovariance = 1316 / 1641, sampleCount = 2\<rparr>,
      rawHistory = [\<lparr>rssi = referenceRssi m, timestamp = 10\<rparr>,
                    \<lparr>rssi = referenceRssi m, timestamp = 20\<rparr>],
      maxHistoryLength = 50\<rparr>"

definition four_radio_state :: MultiRadioEstimator where
  "four_radio_state =
     after_addReading ''LORA'' (referenceRssi LORA) 20
    (after_addReading ''LORA'' (referenceRssi LORA) 10
    (after_addReading ''WIFI_5G'' (referenceRssi WIFI_5G) 20
    (after_addReading ''WIFI_5G'' (referenceRssi WIFI_5G) 10
    (after_addReading ''WIFI_2G'' (referenceRssi WIFI_2G) 20
    (after_addReading ''WIFI_2G'' (referenceRssi WIFI_2G) 10
    (after_addReading ''BLE'' (referenceRssi BLE) 20
    (after_addReading ''BLE'' (referenceRssi BLE) 10 MultiRadioEstimator_new)))))))"



section \<open>The Kalman filter\<close>

lemma update_fields:
  "Q (snd (update m kf)) = Q kf"
  "R (snd (update m kf)) = R kf"
  "sampleCount (snd (update m kf)) = sampleCount kf + 1"
  "errorCovariance (snd (update m kf)) =
     (1 - (errorCovariance kf + Q kf) / (errorCovariance kf + Q kf + R kf)) * (errorCovariance kf + Q kf)"
  "estimate (snd (update m kf)) =
     estimate kf + (errorCovariance kf + Q kf) / (errorCovariance kf + Q kf + R kf) * (m - estimate kf)"
  "fst (update m kf) = estimate (snd (update m kf))"
  by (simp_all add: update_def Let_def)

text \<open>
  C2. One call \<open>update(m)\<close> on a filter with estimate \<open>E\<close>, error covariance \<open>P\<close> and constants
  \<open>Q\<close>, \<open>R\<close> computes \<open>predictedError = P + Q\<close> and
  \<open>kalmanGain = predictedError / (predictedError + R)\<close>, sets the estimate to
  \<open>E + kalmanGain * (m - E)\<close> and the error covariance to \<open>(1 - kalmanGain) * predictedError\<close>,
  adds one to \<open>sampleCount\<close>, leaves \<open>Q\<close> and \<open>R\<close> alone and returns the new estimate.
  The equations are those of the source symbol by symbol; where \<open>predictedError + R = 0\<close>
  the quotient is a division by zero in the source and in the formula alike.
\<close>

theorem update_predict_correct:
  "update m \<lparr>Q = q, R = r, estimate = E, errorCovariance = P, sampleCount = n\<rparr> =
     (E + ((P + q) / ((P + q) + r)) * (m - E),
      \<lparr>Q = q, R = r,
       estimate = E + ((P + q) / ((P + q) + r)) * (m - E),
       errorCovariance = (1 - (P + q) / ((P + q) + r)) * (P + q),
       sampleCount = n + 1\<rparr>)"
  by (simp add: update_def Let_def)

lemma feed_Q [simp]: "Q (feed ms kf) = Q kf"
  by (induction ms arbitrary: kf) (simp_all add: update_fields)

lemma feed_R [simp]: "R (feed ms kf) = R kf"
  by (induction ms arbitrary: kf) (simp_all add: update_fields)

lemma feed_append: "feed (xs @ ys) kf = feed ys (feed xs kf)"
  by (induction xs arbitrary: kf) simp_all

lemma feed_errorCovariance:
  "errorCovariance (feed ms kf) = covarianceAfter (length ms) (Q kf) (R kf) (errorCovariance kf)"
  by (induction ms arbitrary: kf) (simp_all add: update_fields)

lemma update_residual:
  "estimate (snd (update m kf)) - m =
     (1 - (errorCovariance kf + Q kf) / (errorCovariance kf + Q kf + R kf)) * (estimate kf - m)"
proof -
  have "e + k * (m - e) - m = (1 - k) * (e - m)" for e k :: real
    by (simp add: algebra_simps)
  then show ?thesis by (simp only: update_fields)
qed

lemma feed_replicate_residual:
  "estimate (feed (replicate n m) kf) - m =
     residualAfter n (Q kf) (R kf) (errorCovariance kf) * (estimate kf - m)"
proof (induction n arbitrary: kf)
  case 0
  show ?case by simp
next
  case (Suc n)
  have "estimate (snd (update m kf)) - m =
      (1 - (errorCovariance kf + Q kf) / (errorCovariance kf + Q kf + R kf)) * (estimate kf - m)"
    by (rule update_residual)
  then show ?case
    using Suc.IH [of "snd (update m kf)"] by (simp add: update_fields)
qed

lemma update_filter_ok: "filter_ok kf \<Longrightarrow> filter_ok (snd (update m kf))"
  unfolding filter_ok_def update_fields
proof (intro conjI)
  assume a: "0 \<le> Q kf \<and> 0 < R kf \<and> 0 \<le> errorCovariance kf"
  let ?p = "errorCovariance kf + Q kf"
  from a have p: "0 \<le> ?p" and r: "0 < R kf" by simp_all
  then have "?p / (?p + R kf) \<le> 1" by (simp add: divide_le_eq)
  with p show "0 \<le> (1 - ?p / (?p + R kf)) * ?p" by simp
qed simp_all

lemma feed_filter_ok: "filter_ok kf \<Longrightarrow> filter_ok (feed ms kf)"
  by (induction ms arbitrary: kf) (simp_all add: update_filter_ok)

lemma update_contracts:
  assumes "filter_ok kf"
  shows "\<bar>estimate (snd (update m kf)) - m\<bar> \<le> \<bar>estimate kf - m\<bar>"
proof -
  let ?p = "errorCovariance kf + Q kf"
  let ?k = "?p / (?p + R kf)"
  from assms have p: "0 \<le> ?p" and r: "0 < R kf" by (simp_all add: filter_ok_def)
  then have k: "0 \<le> ?k" "?k \<le> 1" by (simp_all add: divide_le_eq)
  have "estimate (snd (update m kf)) - m = (1 - ?k) * (estimate kf - m)"
    by (rule update_residual)
  then have "\<bar>estimate (snd (update m kf)) - m\<bar> = (1 - ?k) * \<bar>estimate kf - m\<bar>"
    using k by (simp add: abs_mult)
  also have "\<dots> \<le> 1 * \<bar>estimate kf - m\<bar>"
    using k by (intro mult_right_mono) simp_all
  finally show ?thesis by simp
qed

lemma feed_replicate_contracts:
  "filter_ok kf \<Longrightarrow> \<bar>estimate (feed (replicate n m) kf) - m\<bar> \<le> \<bar>estimate kf - m\<bar>"
proof (induction n arbitrary: kf)
  case 0
  show ?case by simp
next
  case (Suc n)
  have "\<bar>estimate (feed (replicate n m) (snd (update m kf))) - m\<bar> \<le> \<bar>estimate (snd (update m kf)) - m\<bar>"
    by (rule Suc.IH) (rule update_filter_ok [OF Suc.prems])
  also have "\<dots> \<le> \<bar>estimate kf - m\<bar>"
    by (rule update_contracts [OF Suc.prems])
  finally show ?case by simp
qed

lemma residual_10: "residualAfter 10 (1 / 8) 4 1 = 1125899906842624 / 8166684832004201"
  by (simp add: eval_nat_numeral)

lemma cov10: "covarianceAfter 10 (1 / 8) 4 1 = 5354748737015076 / 8166684832004201"
  by (simp add: eval_nat_numeral)

lemma default_ok: "filter_ok KalmanFilter_default"
  by (simp add: filter_ok_def KalmanFilter_default_def KalmanFilter_new_def)

lemma default_fields:
  "Q KalmanFilter_default = 1 / 8" "R KalmanFilter_default = 4"
  "errorCovariance KalmanFilter_default = 1" "estimate KalmanFilter_default = -60"
  by (simp_all add: KalmanFilter_default_def KalmanFilter_new_def)

text \<open>
  C7, as stated, fails: a fresh filter starts at \<open>-60\<close>, and ten updates with the constant
  measurement \<open>-100\<close> leave the estimate near \<open>-94.49\<close>, more than 5 dBm away.
\<close>

theorem convergence_counterexample:
  "\<not> \<bar>estimate (feed (replicate 10 (-100)) KalmanFilter_default) - (-100)\<bar> \<le> 2"
proof -
  have "estimate (feed (replicate 10 (-100)) KalmanFilter_default) - (-100) =
      residualAfter 10 (1 / 8) 4 1 * (-60 - (-100))"
    by (simp only: feed_replicate_residual default_fields)
  then show ?thesis by (simp add: residual_10)
qed

lemma fresh_ok: "filter_ok (KalmanFilter_new (1 / 8) 4 E0 1)"
  by (simp add: filter_ok_def KalmanFilter_new_def)

lemma fresh_fields:
  "Q (KalmanFilter_new q r E0 p) = q" "R (KalmanFilter_new q r E0 p) = r"
  "errorCovariance (KalmanFilter_new q r E0 p) = p" "estimate (KalmanFilter_new q r E0 p) = E0"
  by (simp_all add: KalmanFilter_new_def)

text \<open>
  C7, amended. For a filter constructed with the module's constants (\<open>Q = 0.125\<close>,
  \<open>R = 4\<close>, initial error 1) and any initial estimate \<open>E0\<close> (\<open>-60\<close> by default), ten updates
  with one constant measurement shrink the distance from the estimate to the measurement by
  the factor \<open>2^50 / 8166684832004201\<close> (about 0.138), and further updates never increase
  it. So for every constant measurement \<open>m\<close> within 14.5 dBm of the initial estimate,
  feeding \<open>m\<close> into the fresh filter \<open>N \<ge> 10\<close> times yields an estimate within 2 dBm of
  \<open>m\<close>. The other half of the claim stands as it is: for every constant measurement
  \<open>m'\<close> and every initial estimate \<open>E0'\<close>, with no condition on either, \<open>getConfidence()\<close>
  after 10 updates is strictly greater than after 1 update.
\<close>

theorem convergence_near_initial_estimate:
  "(10 \<le> N \<and> \<bar>m - E0\<bar> \<le> 29 / 2 \<longrightarrow>
      \<bar>estimate (feed (replicate N m) (KalmanFilter_new (1 / 8) 4 E0 1)) - m\<bar> \<le> 2)
   \<and> getConfidence (feed (replicate 10 m') (KalmanFilter_new (1 / 8) 4 E0' 1))
        > getConfidence (feed (replicate 1 m') (KalmanFilter_new (1 / 8) 4 E0' 1))"
proof (intro conjI impI)
  assume a: "10 \<le> N \<and> \<bar>m - E0\<bar> \<le> 29 / 2"
  let ?kf = "KalmanFilter_new (1 / 8) 4 E0 1"
  let ?kf10 = "feed (replicate 10 m) ?kf"
  from a have "replicate N m = replicate 10 m @ replicate (N - 10) m"
    by (simp add: replicate_add [symmetric])
  then have "estimate (feed (replicate N m) ?kf) = estimate (feed (replicate (N - 10) m) ?kf10)"
    by (simp only: feed_append)
  moreover have "\<bar>estimate (feed (replicate (N - 10) m) ?kf10) - m\<bar> \<le> \<bar>estimate ?kf10 - m\<bar>"
    by (intro feed_replicate_contracts feed_filter_ok fresh_ok)
  moreover have "\<bar>estimate ?kf10 - m\<bar> = 1125899906842624 / 8166684832004201 * \<bar>m - E0\<bar>"
  proof -
    have "estimate ?kf10 - m = residualAfter 10 (1 / 8) 4 1 * (E0 - m)"
      by (simp only: feed_replicate_residual fresh_fields)
    then have "\<bar>estimate ?kf10 - m\<bar> = \<bar>residualAfter 10 (1 / 8) 4 1\<bar> * \<bar>E0 - m\<bar>"
      by (simp only: abs_mult)
    moreover have "\<bar>residualAfter 10 (1 / 8) 4 1\<bar> = 1125899906842624 / 8166684832004201"
      by (simp add: residual_10)
    moreover have "\<bar>E0 - m\<bar> = \<bar>m - E0\<bar>"
      by (rule abs_minus_commute)
    ultimately show ?thesis by (simp only:)
  qed
  ultimately show "\<bar>estimate (feed (replicate N m) ?kf) - m\<bar> \<le> 2"
    using a by simp
next
  let ?kf = "KalmanFilter_new (1 / 8) 4 E0' 1"
  have "errorCovariance (feed (replicate 10 m') ?kf) = 5354748737015076 / 8166684832004201"
    by (simp only: feed_errorCovariance fresh_fields length_replicate cov10)
  moreover have "errorCovariance (feed (replicate 1 m') ?kf) = 36 / 41"
    by (simp add: update_fields fresh_fields)
  ultimately show "getConfidence (feed (replicate 10 m') ?kf) > getConfidence (feed (replicate 1 m') ?kf)"
    by (simp add: getConfidence_def Let_def)
qed

text \<open>
  The instance of the repository's test (\<open>-55\<close> into a filter started at \<open>-60\<close>) for the
  bound, and the measurement of the counterexample, \<open>-100\<close>, for the confidence.
\<close>

theorem convergence_near_initial_estimate_witness:
  "\<bar>estimate (feed (replicate 10 (-55)) (KalmanFilter_new (1 / 8) 4 (-60) 1)) - (-55)\<bar> \<le> 2
    \<and> getConfidence (feed (replicate 10 (-100)) (KalmanFilter_new (1 / 8) 4 (-60) 1))
        > getConfidence (feed (replicate 1 (-100)) (KalmanFilter_new (1 / 8) 4 (-60) 1))"
  using convergence_near_initial_estimate [of 10 "-55" "-60" "-100" "-60"] by simp

text \<open>
  C10. The error covariance after the updates, and with it \<open>getConfidence()\<close>, does not
  depend on the measured values: two filters with the same \<open>Q\<close>, \<open>R\<close> and error covariance,
  fed two measurement sequences of equal length, end with equal error covariances and
  equal confidences.
\<close>

theorem errorCovariance_independent_of_measurements:
  assumes "length ms1 = length ms2" and "Q kf1 = Q kf2" and "R kf1 = R kf2"
    and "errorCovariance kf1 = errorCovariance kf2"
  shows "errorCovariance (feed ms1 kf1) = errorCovariance (feed ms2 kf2)
    \<and> getConfidence (feed ms1 kf1) = getConfidence (feed ms2 kf2)"
  using assms by (simp add: feed_errorCovariance getConfidence_def)

theorem errorCovariance_independent_of_measurements_witness:
  "errorCovariance (feed [-50, -70, -61] (KalmanFilter_new (1 / 8) 4 (-59) 1))
     = errorCovariance (feed [-90, -30, -45] (KalmanFilter_new (1 / 8) 4 (-40) 1))
   \<and> getConfidence (feed [-50, -70, -61] (KalmanFilter_new (1 / 8) 4 (-59) 1))
     = getConfidence (feed [-90, -30, -45] (KalmanFilter_new (1 / 8) 4 (-40) 1))"
  using errorCovariance_independent_of_measurements
      [of "[-50, -70, -61]" "[-90, -30, -45]"
          "KalmanFilter_new (1 / 8) 4 (-59) 1" "KalmanFilter_new (1 / 8) 4 (-40) 1"]
  by (simp add: KalmanFilter_new_def)

lemma foldl_plus: "foldl (\<lambda>a b. a + b) a xs = a + sum_list xs" for a :: real
  by (induction xs arbitrary: a) simp_all

lemma new_BLE:
  "DistanceEstimator_new ''BLE'' None =
     \<lparr>model = BLE, kalmanFilter = KalmanFilter_new (1 / 8) 4 (-59) 1, rawHistory = [],
      maxHistoryLength = 50\<rparr>"
  by (simp add: DistanceEstimator_new_def SignalModels_def BLE_def)

lemma getStats_samples: "samples (getStats s) = length (rawHistory s)"
  by (simp add: getStats_def Let_def)

section \<open>The single-radio estimator\<close>

text \<open>
  C1. For every RSSI strictly outside \<open>[minRssi, maxRssi]\<close>, \<open>estimateDistance\<close> returns
  the object \<open>{distance: null, confidence: 0, filteredRssi: rssi, rawRssi: rssi, error:
  "RSSI out of valid range"}\<close> and leaves the estimator as it was: the history, the
  sample count of \<open>getStats()\<close>, and the filter's estimate, error covariance and sample
  count are those before the call.
\<close>

theorem rejection_leaves_no_trace:
  assumes "r < minRssi (model s) \<or> maxRssi (model s) < r"
  shows "fst (estimateDistance r useFilter now s) =
       \<lparr>distance = Null, confidence = 0, filteredRssi = r, rawRssi = r,
        model_name = Undefined, reliable = Undefined,
        error = Val ''RSSI out of valid range''\<rparr>
     \<and> snd (estimateDistance r useFilter now s) = s
     \<and> rawHistory (snd (estimateDistance r useFilter now s)) = rawHistory s
     \<and> samples (getStats (snd (estimateDistance r useFilter now s))) = samples (getStats s)
     \<and> estimate (kalmanFilter (snd (estimateDistance r useFilter now s))) = estimate (kalmanFilter s)
     \<and> errorCovariance (kalmanFilter (snd (estimateDistance r useFilter now s)))
         = errorCovariance (kalmanFilter s)
     \<and> sampleCount (kalmanFilter (snd (estimateDistance r useFilter now s)))
         = sampleCount (kalmanFilter s)"
  using assms by (simp add: estimateDistance_def)

theorem rejection_leaves_no_trace_witness:
  "estimateDistance (-110) True 7 (DistanceEstimator_new ''BLE'' None) =
     (\<lparr>distance = Null, confidence = 0, filteredRssi = -110, rawRssi = -110,
       model_name = Undefined, reliable = Undefined,
       error = Val ''RSSI out of valid range''\<rparr>, DistanceEstimator_new ''BLE'' None)"
  using rejection_leaves_no_trace [of "-110" "DistanceEstimator_new ''BLE'' None" True 7]
  by (simp add: new_BLE BLE_def prod_eq_iff)

text \<open>
  C3. \<open>calibrate\<close> does not do what the claim says for a model whose reference distance
  is not 1 m. The header of the module and \<open>estimateDistance\<close> read \<open>referenceRssi\<close> as
  the RSSI at \<open>referenceDistance\<close>, but \<open>calibrate\<close> compares the known distance with the
  literal \<open>1.0\<close> and stores the RSSI at 1 m. With reference distance 10 m, path-loss
  exponent 2 and five samples of \<open>-50\<close> taken at the known distance 10 m, the known
  distance is the reference distance, so the claim gives \<open>referenceRssi = round(-50) = -50\<close>;
  the code returns \<open>true\<close> and stores \<open>round(-50 + 20 * log10 10) = -30\<close>, after which
  \<open>estimateDistance(-50, false)\<close>, the calibrated reading itself, is put at 100 m instead
  of 10 m.
\<close>

theorem calibrate_ignores_referenceDistance:
  "\<bar>10 - referenceDistance (model (DistanceEstimator_new ''BLE'' (Some (BLE\<lparr>referenceDistance := 10\<rparr>))))\<bar>
      < 1 / 10
   \<and> Math_round (sum_list [-50, -50, -50, -50, -50] / 5) = -50
   \<and> fst (calibrate 10 [-50, -50, -50, -50, -50]
        (DistanceEstimator_new ''BLE'' (Some (BLE\<lparr>referenceDistance := 10\<rparr>)))) = True
   \<and> referenceRssi (model (snd (calibrate 10 [-50, -50, -50, -50, -50]
        (DistanceEstimator_new ''BLE'' (Some (BLE\<lparr>referenceDistance := 10\<rparr>)))))) = -30
   \<and> distance (fst (estimateDistance (-50) False 0
        (snd (calibrate 10 [-50, -50, -50, -50, -50]
           (DistanceEstimator_new ''BLE'' (Some (BLE\<lparr>referenceDistance := 10\<rparr>))))))) = Val 100"
proof -
  let ?s = "DistanceEstimator_new ''BLE'' (Some (BLE\<lparr>referenceDistance := 10\<rparr>))"
  have c: "calibrate 10 [-50, -50, -50, -50, -50] ?s =
      (True, ?s\<lparr>model := (model ?s)\<lparr>referenceRssi := -30\<rparr>,
                kalmanFilter := reset_filter (-50) (kalmanFilter ?s)\<rparr>)"
    by (simp add: calibrate_def Let_def Math_round_def DistanceEstimator_new_def BLE_def)
  have d: "distance (fst (estimateDistance (-50) False 0
      (?s\<lparr>model := (model ?s)\<lparr>referenceRssi := -30\<rparr>,
          kalmanFilter := reset_filter (-50) (kalmanFilter ?s)\<rparr>))) = Val 100"
    by (simp add: estimateDistance_def Let_def split_beta DistanceEstimator_new_def BLE_def
        Math_round_def)
  show ?thesis
    unfolding c using d by (simp add: DistanceEstimator_new_def BLE_def Math_round_def)
qed

text \<open>
  Where the reference distance is 1 m, as in the four built-in models, the two tests
  coincide and \<open>calibrate\<close> does what C3 says.
\<close>

lemma calibrate_reference_distance_one:
  assumes "referenceDistance (model s) = 1" and "5 \<le> length rssiSamples"
  shows "calibrate knownDistance rssiSamples s =
    (True,
     s\<lparr>model := (model s)\<lparr>referenceRssi :=
          (if \<bar>knownDistance - referenceDistance (model s)\<bar> < 1 / 10
           then Math_round (sum_list rssiSamples / real (length rssiSamples))
           else Math_round (sum_list rssiSamples / real (length rssiSamples)
                  + 10 * pathLossExponent (model s) * log 10 knownDistance))\<rparr>,
       kalmanFilter := reset_filter (sum_list rssiSamples / real (length rssiSamples)) (kalmanFilter s)\<rparr>)"
  using assms by (simp add: calibrate_def Let_def foldl_plus)


text \<open>
  C8, as stated, fails: the object returned on success has no key \<open>error\<close>, so reading
  it gives \<open>undefined\<close>, which is not \<open>null\<close>.
\<close>

theorem success_error_counterexample:
  "error (fst (estimateDistance (-59) False 0 (DistanceEstimator_new ''BLE'' None))) \<noteq> Null"
  by (simp add: estimateDistance_def new_BLE BLE_def Let_def split_beta)

text \<open>
  C8, amended. For every in-range RSSI the object returned has no \<open>error\<close> key
  (\<open>undefined\<close>), and it has the keys \<open>distance\<close> (a number), \<open>rawRssi\<close> (the argument),
  \<open>model\<close> (the model's name) and \<open>reliable\<close> (a boolean), besides \<open>confidence\<close> and
  \<open>filteredRssi\<close>.
\<close>

theorem success_has_no_error_key:
  assumes "minRssi (model s) \<le> r" and "r \<le> maxRssi (model s)"
  shows "error (fst (estimateDistance r useFilter now s)) = Undefined
    \<and> distance (fst (estimateDistance r useFilter now s)) \<noteq> Null
    \<and> distance (fst (estimateDistance r useFilter now s)) \<noteq> Undefined
    \<and> rawRssi (fst (estimateDistance r useFilter now s)) = r
    \<and> model_name (fst (estimateDistance r useFilter now s)) = Val (name (model s))
    \<and> reliable (fst (estimateDistance r useFilter now s)) \<noteq> Null
    \<and> reliable (fst (estimateDistance r useFilter now s)) \<noteq> Undefined"
  using assms by (simp add: estimateDistance_def Let_def split_beta)

theorem success_has_no_error_key_witness:
  "error (fst (estimateDistance (-59) False 0 (DistanceEstimator_new ''BLE'' None))) = Undefined
    \<and> distance (fst (estimateDistance (-59) False 0 (DistanceEstimator_new ''BLE'' None))) \<noteq> Null
    \<and> distance (fst (estimateDistance (-59) False 0 (DistanceEstimator_new ''BLE'' None))) \<noteq> Undefined
    \<and> rawRssi (fst (estimateDistance (-59) False 0 (DistanceEstimator_new ''BLE'' None))) = -59
    \<and> model_name (fst (estimateDistance (-59) False 0 (DistanceEstimator_new ''BLE'' None))) = Val ''Bluetooth Low Energy''
    \<and> reliable (fst (estimateDistance (-59) False 0 (DistanceEstimator_new ''BLE'' None))) \<noteq> Null
    \<and> reliable (fst (estimateDistance (-59) False 0 (DistanceEstimator_new ''BLE'' None))) \<noteq> Undefined"
  using success_has_no_error_key [of "DistanceEstimator_new ''BLE'' None" "-59" False 0]
  by (simp add: new_BLE BLE_def)

lemma estimateDistance_frame:
  "model (snd (estimateDistance r uf now s)) = model s"
  "maxHistoryLength (snd (estimateDistance r uf now s)) = maxHistoryLength s"
  by (simp_all add: estimateDistance_def Let_def split_beta)

lemma estimateDistance_history:
  assumes "minRssi (model s) \<le> r" and "r \<le> maxRssi (model s)"
  shows "rawHistory (snd (estimateDistance r uf now s)) =
     (if maxHistoryLength s < length (rawHistory s) + 1
      then tl (rawHistory s @ [\<lparr>rssi = r, timestamp = now\<rparr>])
      else rawHistory s @ [\<lparr>rssi = r, timestamp = now\<rparr>])"
  using assms by (simp add: estimateDistance_def Let_def split_beta)

lemma estimateDistance_history_length:
  "length (rawHistory s) \<le> maxHistoryLength s \<Longrightarrow>
   length (rawHistory (snd (estimateDistance r uf now s))) \<le> maxHistoryLength s"
  by (simp add: estimateDistance_def Let_def split_beta)

lemma calibrate_frame:
  "rawHistory (snd (calibrate kd xs s)) = rawHistory s"
  "maxHistoryLength (snd (calibrate kd xs s)) = maxHistoryLength s"
  by (simp_all add: calibrate_def Let_def)

lemma exec_bound:
  assumes "length (rawHistory s) \<le> maxHistoryLength s"
  shows "length (rawHistory (exec c s)) \<le> maxHistoryLength (exec c s)"
  using assms
  by (cases c)
     (simp_all add: estimateDistance_frame estimateDistance_history_length calibrate_frame
        reset_estimator_def)

lemma exec_maxHistoryLength: "maxHistoryLength (exec c s) = maxHistoryLength s"
  by (cases c) (simp_all add: estimateDistance_frame calibrate_frame reset_estimator_def)

lemma execs_bound:
  "length (rawHistory s) \<le> maxHistoryLength s \<Longrightarrow>
   length (rawHistory (execs cs s)) \<le> maxHistoryLength s"
proof (induction cs arbitrary: s)
  case Nil
  then show ?case by simp
next
  case (Cons c cs)
  have "length (rawHistory (execs cs (exec c s))) \<le> maxHistoryLength (exec c s)"
    by (rule Cons.IH) (rule exec_bound [OF Cons.prems])
  then show ?case by (simp add: exec_maxHistoryLength)
qed

lemma new_fields:
  "rawHistory (DistanceEstimator_new radioType customModel) = []"
  "maxHistoryLength (DistanceEstimator_new radioType customModel) = 50"
  by (simp_all add: DistanceEstimator_new_def Let_def)

lemma step_history_full:
  assumes "minRssi (model s) \<le> r" and "r \<le> maxRssi (model s)"
    and "length (rawHistory s) = maxHistoryLength s" and "rawHistory s \<noteq> []"
  shows "rawHistory (snd (estimateDistance r uf now s)) =
     tl (rawHistory s) @ [\<lparr>rssi = r, timestamp = now\<rparr>]"
  using assms by (simp add: estimateDistance_history)

lemma step_history_room:
  assumes "minRssi (model s) \<le> r" and "r \<le> maxRssi (model s)"
    and "length (rawHistory s) < maxHistoryLength s"
  shows "rawHistory (snd (estimateDistance r uf now s)) =
     rawHistory s @ [\<lparr>rssi = r, timestamp = now\<rparr>]"
  using assms by (simp add: estimateDistance_history)

lemma readings_history:
  assumes "\<forall>(r, uf, now) \<in> set xs. minRssi (model s) \<le> r \<and> r \<le> maxRssi (model s)"
    and "maxHistoryLength s = 50" and "length (rawHistory s) \<le> 50"
  shows "rawHistory (execs (readings xs) s) =
     drop (length (rawHistory s) + length xs - 50) (rawHistory s @ stored xs)"
  using assms
proof (induction xs arbitrary: s)
  case Nil
  then show ?case by (simp add: readings_def stored_def)
next
  case (Cons x xs)
  obtain r uf now where x: "x = (r, uf, now)" by (cases x)
  let ?s = "snd (estimateDistance r uf now s)"
  let ?new = "\<lparr>rssi = r, timestamp = now\<rparr>"
  from Cons.prems x have r: "minRssi (model s) \<le> r" "r \<le> maxRssi (model s)" by simp_all
  have len: "length (rawHistory ?s) \<le> 50"
    using estimateDistance_history_length [of s r uf now] Cons.prems by simp
  have IH: "rawHistory (execs (readings xs) ?s) =
      drop (length (rawHistory ?s) + length xs - 50) (rawHistory ?s @ stored xs)"
    using Cons.prems len by (intro Cons.IH) (simp_all add: estimateDistance_frame)
  have unfold: "execs (readings (x # xs)) s = execs (readings xs) ?s"
    by (simp add: readings_def x)
  have st: "stored (x # xs) = ?new # stored xs"
    by (simp add: stored_def x)
  show ?case
  proof (cases "length (rawHistory s) = 50")
    case True
    then have ne: "rawHistory s \<noteq> []" by auto
    have h: "rawHistory ?s = tl (rawHistory s) @ [?new]"
      using r True Cons.prems(2) ne by (intro step_history_full) simp_all
    have "rawHistory (execs (readings xs) ?s) = drop (length xs) (tl (rawHistory s) @ ?new # stored xs)"
      using IH True by (simp add: h)
    also have "tl (rawHistory s) @ ?new # stored xs = tl (rawHistory s @ ?new # stored xs)"
      using ne by simp
    also have "drop (length xs) \<dots> = drop (Suc (length xs)) (rawHistory s @ ?new # stored xs)"
      by (simp only: drop_Suc)
    finally show ?thesis
      using True by (simp add: unfold st)
  next
    case False
    with Cons.prems(3) have lt: "length (rawHistory s) < 50" by simp
    have h: "rawHistory ?s = rawHistory s @ [?new]"
      using r lt Cons.prems(2) by (intro step_history_room) simp_all
    show ?thesis
      using IH by (simp add: h unfold st)
  qed
qed

text \<open>
  C5. From construction on, whatever calls are made, the history holds at most 50
  entries; a reading that arrives at a full history drops the oldest entry and goes to
  the end; and after 60 in-range samples \<open>getStats().samples\<close> is 50 and the history is
  the last 50 readings in order.
\<close>

theorem history_capacity_fifo:
  "length (rawHistory (execs calls (DistanceEstimator_new radioType customModel))) \<le> 50
   \<and> (minRssi (model s) \<le> r \<and> r \<le> maxRssi (model s)
        \<and> length (rawHistory s) = 50 \<and> maxHistoryLength s = 50 \<longrightarrow>
      rawHistory (snd (estimateDistance r useFilter now s)) =
        tl (rawHistory s) @ [\<lparr>rssi = r, timestamp = now\<rparr>])
   \<and> (length xs = 60
        \<and> (\<forall>(r, useFilter, now) \<in> set xs.
              minRssi (model (DistanceEstimator_new radioType customModel)) \<le> r
              \<and> r \<le> maxRssi (model (DistanceEstimator_new radioType customModel))) \<longrightarrow>
      samples (getStats (execs (readings xs) (DistanceEstimator_new radioType customModel))) = 50
      \<and> rawHistory (execs (readings xs) (DistanceEstimator_new radioType customModel))
          = drop 10 (stored xs))"
proof (intro conjI impI)
  show "length (rawHistory (execs calls (DistanceEstimator_new radioType customModel))) \<le> 50"
    using execs_bound [of "DistanceEstimator_new radioType customModel" calls]
    by (simp add: new_fields)
next
  assume a: "minRssi (model s) \<le> r \<and> r \<le> maxRssi (model s)
        \<and> length (rawHistory s) = 50 \<and> maxHistoryLength s = 50"
  then have "rawHistory s \<noteq> []" by auto
  with a show "rawHistory (snd (estimateDistance r useFilter now s)) =
        tl (rawHistory s) @ [\<lparr>rssi = r, timestamp = now\<rparr>]"
    by (intro step_history_full) simp_all
next
  let ?new = "DistanceEstimator_new radioType customModel"
  assume a: "length xs = 60
        \<and> (\<forall>(r, useFilter, now) \<in> set xs.
              minRssi (model ?new) \<le> r \<and> r \<le> maxRssi (model ?new))"
  then have h: "rawHistory (execs (readings xs) ?new) = drop 10 (stored xs)"
    using readings_history [of xs ?new] by (simp add: new_fields)
  then show "rawHistory (execs (readings xs) ?new) = drop 10 (stored xs)" .
  from a show "samples (getStats (execs (readings xs) ?new)) = 50"
    by (simp add: getStats_samples h stored_def)
qed

theorem history_capacity_fifo_witness:
  "length (rawHistory (execs [EstimateDistance (-60) True 1, Reset, EstimateDistance (-61) False 2]
      (DistanceEstimator_new ''BLE'' None))) \<le> 50
   \<and> rawHistory (snd (estimateDistance (-70) True 50
        \<lparr>model = BLE, kalmanFilter = KalmanFilter_new (1 / 8) 4 (-59) 1,
         rawHistory = map (\<lambda>i. \<lparr>rssi = -60, timestamp = i\<rparr>) [0..<50],
         maxHistoryLength = 50\<rparr>)) =
       map (\<lambda>i. \<lparr>rssi = -60, timestamp = i\<rparr>) [1..<50] @ [\<lparr>rssi = -70, timestamp = 50\<rparr>]
   \<and> samples (getStats (execs (readings (map (\<lambda>i. (-60, True, i)) [0..<60]))
        (DistanceEstimator_new ''BLE'' None))) = 50
   \<and> rawHistory (execs (readings (map (\<lambda>i. (-60, True, i)) [0..<60]))
        (DistanceEstimator_new ''BLE'' None))
      = map (\<lambda>i. \<lparr>rssi = -60, timestamp = i\<rparr>) [10..<60]"
  using history_capacity_fifo [of "[EstimateDistance (-60) True 1, Reset, EstimateDistance (-61) False 2]"
      "''BLE''" None
      "\<lparr>model = BLE, kalmanFilter = KalmanFilter_new (1 / 8) 4 (-59) 1,
         rawHistory = map (\<lambda>i. \<lparr>rssi = -60, timestamp = i\<rparr>) [0..<50],
         maxHistoryLength = 50\<rparr>" "-70" True 50
      "map (\<lambda>i. (-60, True, i)) [0..<60]"]
  by (simp add: new_BLE BLE_def stored_def drop_map map_tl [symmetric] del: upt_Suc)

lemma Math_round_mono: "x \<le> y \<Longrightarrow> Math_round x \<le> Math_round y"
  by (simp add: Math_round_def floor_mono)

lemma estimateDistance_distance:
  assumes "minRssi (model s) \<le> r" and "r \<le> maxRssi (model s)"
  shows "distance (fst (estimateDistance r useFilter now s)) =
     Val (Math_round (referenceDistance (model s)
            * 10 powr ((referenceRssi (model s)
                         - (if useFilter then fst (update r (kalmanFilter s)) else r))
                       / (10 * pathLossExponent (model s)))
            * 100) / 100)"
  using assms by (simp add: estimateDistance_def Let_def split_beta)

lemma update_mono:
  assumes "filter_ok kf" and "b \<le> a"
  shows "fst (update b kf) \<le> fst (update a kf)"
proof -
  let ?p = "errorCovariance kf + Q kf"
  from assms(1) have "0 \<le> ?p" and "0 < ?p + R kf" by (simp_all add: filter_ok_def)
  then have "0 \<le> ?p / (?p + R kf)" by simp
  then have "?p / (?p + R kf) * (b - estimate kf) \<le> ?p / (?p + R kf) * (a - estimate kf)"
    using assms(2) by (intro mult_left_mono) simp_all
  then show ?thesis by (simp add: update_fields)
qed

lemma path_loss_antimono:
  assumes "model_ok m" and "g \<le> f"
  shows "referenceDistance m * 10 powr ((referenceRssi m - f) / (10 * pathLossExponent m))
       \<le> referenceDistance m * 10 powr ((referenceRssi m - g) / (10 * pathLossExponent m))"
proof -
  from assms have "(referenceRssi m - f) / (10 * pathLossExponent m)
      \<le> (referenceRssi m - g) / (10 * pathLossExponent m)"
    by (intro divide_right_mono) (simp_all add: model_ok_def)
  then have "(10::real) powr ((referenceRssi m - f) / (10 * pathLossExponent m))
      \<le> 10 powr ((referenceRssi m - g) / (10 * pathLossExponent m))"
    by simp
  then show ?thesis
    using assms(1) by (intro mult_left_mono) (simp_all add: model_ok_def)
qed

lemma ten_powr_ge:
  assumes "0 < c" and "c ^ q \<le> 10 powr (- real p)" and "0 < q"
  shows "c \<le> 10 powr (- (real p / real q))"
proof -
  have "real q * log 10 c = log 10 (c ^ q)"
    using assms(1) by (simp add: log_nat_power)
  also have "\<dots> \<le> - real p"
    using assms(1,2) by (simp add: log_le_iff)
  finally have "log 10 c \<le> - (real p / real q)"
    using assms(3) by (simp add: field_simps)
  then show ?thesis
    using assms(1) by (simp add: le_powr_iff)
qed

lemma ten_powr_le:
  assumes "0 < c" and "10 powr (- real p) \<le> c ^ q" and "0 < q"
  shows "10 powr (- (real p / real q)) \<le> c"
proof -
  have "- real p \<le> log 10 (c ^ q)"
    using assms(1,2) by (simp add: le_log_iff)
  also have "\<dots> = real q * log 10 c"
    using assms(1) by (simp add: log_nat_power)
  finally have "- (real p / real q) \<le> log 10 c"
    using assms(3) by (simp add: field_simps)
  then show ?thesis
    using assms(1) by (simp add: powr_le_iff)
qed

lemma ten_powr_third_lower: "(46 / 100 :: real) \<le> 10 powr (- (1 / 3))"
  using ten_powr_ge [of "46 / 100" 3 1] by (simp add: powr_minus power3_eq_cube)

lemma ten_powr_half_upper: "10 powr (- (1 / 2)) \<le> (32 / 100 :: real)"
  using ten_powr_le [of "32 / 100" 1 2] by (simp add: powr_minus power2_eq_square)

lemma first_filtered:
  "fst (update (-30) (KalmanFilter_new (1 / 8) 4 (-59) 1)) = -2158 / 41"
  by (simp add: update_def Let_def KalmanFilter_new_def)

lemma second_filtered:
  "fst (update (-31) (snd (update (-30) (KalmanFilter_new (1 / 8) 4 (-59) 1)))) = -79255 / 1641"
  by (simp add: update_def Let_def KalmanFilter_new_def)

text \<open>
  C6, as stated, fails for two successive calls with the default \<open>useFilter = true\<close> on
  one estimator, because the second call starts from the filter state the first one
  left. On a fresh BLE estimator \<open>estimateDistance(-30)\<close> filters to about \<open>-52.63\<close> and
  returns a distance of at least 0.46, and the following \<open>estimateDistance(-31)\<close> filters
  to about \<open>-48.30\<close> and returns a distance of at most 0.32: the stronger signal got the
  larger distance.
\<close>

theorem successive_filtered_counterexample:
  "(case (distance (fst (estimateDistance (-30) True 1000 (DistanceEstimator_new ''BLE'' None))),
          distance (fst (estimateDistance (-31) True 2000
             (snd (estimateDistance (-30) True 1000 (DistanceEstimator_new ''BLE'' None))))))
    of (Val da, Val db) \<Rightarrow> db < da | _ \<Rightarrow> False)"
proof -
  let ?s0 = "DistanceEstimator_new ''BLE'' None"
  let ?s1 = "snd (estimateDistance (-30) True 1000 ?s0)"
  define ea :: real where "ea = (-59 - (-2158 / 41)) / (10 * 2)"
  define eb :: real where "eb = (-59 - (-79255 / 1641)) / (10 * 2)"
  have s0: "model ?s0 = BLE" "kalmanFilter ?s0 = KalmanFilter_new (1 / 8) 4 (-59) 1"
    by (simp_all add: new_BLE)
  have s1: "model ?s1 = BLE"
    "kalmanFilter ?s1 = snd (update (-30) (KalmanFilter_new (1 / 8) 4 (-59) 1))"
    by (simp_all add: estimateDistance_frame s0)
       (simp add: new_BLE estimateDistance_def Let_def split_beta BLE_def)
  have da: "distance (fst (estimateDistance (-30) True 1000 ?s0)) =
      Val (Math_round (1 * 10 powr ea * 100) / 100)"
    using estimateDistance_distance [of ?s0 "-30" True 1000]
    unfolding ea_def by (simp add: s0 first_filtered) (simp add: BLE_def)
  have db: "distance (fst (estimateDistance (-31) True 2000 ?s1)) =
      Val (Math_round (1 * 10 powr eb * 100) / 100)"
    using estimateDistance_distance [of ?s1 "-31" True 2000]
    unfolding eb_def by (simp add: s1 second_filtered) (simp add: BLE_def)
  have "- (1 / 3) \<le> ea" by (simp add: ea_def)
  then have "(10::real) powr (- (1 / 3)) \<le> 10 powr ea" by simp
  with ten_powr_third_lower have "46 \<le> 1 * 10 powr ea * 100" by linarith
  then have "Math_round 46 \<le> Math_round (1 * 10 powr ea * 100)"
    by (rule Math_round_mono)
  then have a: "46 / 100 \<le> Math_round (1 * 10 powr ea * 100) / 100"
    by (simp add: Math_round_def)
  have "eb \<le> - (1 / 2)" by (simp add: eb_def)
  then have "(10::real) powr eb \<le> 10 powr (- (1 / 2))" by simp
  with ten_powr_half_upper have "1 * 10 powr eb * 100 \<le> 32" by linarith
  then have "Math_round (1 * 10 powr eb * 100) \<le> Math_round 32"
    by (rule Math_round_mono)
  then have b: "Math_round (1 * 10 powr eb * 100) / 100 \<le> 32 / 100"
    by (simp add: Math_round_def)
  from a b have "Math_round (1 * 10 powr eb * 100) / 100 < Math_round (1 * 10 powr ea * 100) / 100"
    by linarith
  then show ?thesis
    using da db by simp
qed

text \<open>
  C6, amended. Two calls made against the same model and the same filter state (two
  calls on identically prepared estimators, or two successive calls with
  \<open>useFilter = false\<close> on one estimator), with a positive path-loss exponent and a
  reference distance that is not negative: for in-range \<open>a > b\<close> the distance returned
  for \<open>a\<close> is at most the distance returned for \<open>b\<close>.
\<close>

theorem stronger_signal_not_farther:
  assumes "model_ok (model s)" and "filter_ok (kalmanFilter s)"
    and "model s' = model s" and "kalmanFilter s' = kalmanFilter s"
    and "b < a"
    and "minRssi (model s) \<le> b" and "a \<le> maxRssi (model s)"
  shows "\<exists>da db. distance (fst (estimateDistance a useFilter t s)) = Val da
     \<and> distance (fst (estimateDistance b useFilter t' s')) = Val db
     \<and> da \<le> db"
proof -
  let ?f = "\<lambda>r. if useFilter then fst (update r (kalmanFilter s)) else r"
  let ?d = "\<lambda>r. referenceDistance (model s)
            * 10 powr ((referenceRssi (model s) - ?f r) / (10 * pathLossExponent (model s)))"
  from assms have ra: "minRssi (model s) \<le> a" "a \<le> maxRssi (model s)"
    and rb: "minRssi (model s') \<le> b" "b \<le> maxRssi (model s')" by simp_all
  have da: "distance (fst (estimateDistance a useFilter t s)) = Val (Math_round (?d a * 100) / 100)"
    by (rule estimateDistance_distance [OF ra])
  have db: "distance (fst (estimateDistance b useFilter t' s')) = Val (Math_round (?d b * 100) / 100)"
    using estimateDistance_distance [OF rb, of useFilter t'] by (simp only: assms(3,4))
  have "?f b \<le> ?f a"
    using update_mono [OF assms(2), of b a] assms(5) by simp
  then have "?d a \<le> ?d b"
    by (rule path_loss_antimono [OF assms(1)])
  then have "Math_round (?d a * 100) / 100 \<le> Math_round (?d b * 100) / 100"
    by (intro divide_right_mono Math_round_mono) simp_all
  with da db show ?thesis by blast
qed

lemma new_invariants:
  "filter_ok (kalmanFilter (DistanceEstimator_new radioType customModel))"
  by (simp add: DistanceEstimator_new_def Let_def KalmanFilter_new_def filter_ok_def)

lemma builtin_models_ok: "model_ok BLE" "model_ok WIFI_2G" "model_ok WIFI_5G" "model_ok LORA"
  by (simp_all add: model_ok_def BLE_def WIFI_2G_def WIFI_5G_def LORA_def)

lemma new_model_ok: "model_ok (model (DistanceEstimator_new radioType None))"
  by (simp add: DistanceEstimator_new_def SignalModels_def builtin_models_ok)

lemma estimateDistance_filter_ok:
  "filter_ok (kalmanFilter s) \<Longrightarrow> filter_ok (kalmanFilter (snd (estimateDistance r uf now s)))"
  by (simp add: estimateDistance_def Let_def split_beta update_filter_ok)

lemma exec_invariants:
  assumes "model_ok (model s)" and "filter_ok (kalmanFilter s)"
  shows "model_ok (model (exec c s)) \<and> filter_ok (kalmanFilter (exec c s))"
proof (cases c)
  case (EstimateDistance r uf now)
  with assms show ?thesis
    by (simp add: estimateDistance_frame estimateDistance_filter_ok)
next
  case (Calibrate kd xs)
  with assms show ?thesis
    by (simp add: calibrate_def Let_def model_ok_def filter_ok_def reset_filter_def)
next
  case Reset
  with assms show ?thesis
    by (simp add: reset_estimator_def filter_ok_def reset_filter_def)
qed

lemma execs_invariants:
  "model_ok (model s) \<Longrightarrow> filter_ok (kalmanFilter s) \<Longrightarrow>
   model_ok (model (execs cs s)) \<and> filter_ok (kalmanFilter (execs cs s))"
  by (induction cs arbitrary: s) (simp_all add: exec_invariants)

lemma estimateDistance_unfiltered_filter:
  "kalmanFilter (snd (estimateDistance r False now s)) = kalmanFilter s"
  by (simp add: estimateDistance_def Let_def)

theorem stronger_signal_not_farther_witness:
  "\<exists>da db. distance (fst (estimateDistance (-50) False 1 (DistanceEstimator_new ''BLE'' None))) = Val da
     \<and> distance (fst (estimateDistance (-70) False 2
          (snd (estimateDistance (-50) False 1 (DistanceEstimator_new ''BLE'' None))))) = Val db
     \<and> da \<le> db"
  using stronger_signal_not_farther [of "DistanceEstimator_new ''BLE'' None"
      "snd (estimateDistance (-50) False 1 (DistanceEstimator_new ''BLE'' None))" "-70" "-50" False 1 2]
  by (simp add: new_invariants new_model_ok estimateDistance_frame estimateDistance_unfiltered_filter)
     (simp add: new_BLE BLE_def)

section \<open>The multi-radio estimator\<close>

lemma reading_at_reference:
  assumes "minRssi m \<le> referenceRssi m" and "referenceRssi m \<le> maxRssi m" and "length h < 50"
  shows "snd (estimateDistance (referenceRssi m) True now
           \<lparr>model = m, kalmanFilter = \<lparr>Q = 1 / 8, R = 4, estimate = referenceRssi m, errorCovariance = p, sampleCount = n\<rparr>,
            rawHistory = h, maxHistoryLength = 50\<rparr>) =
         \<lparr>model = m, kalmanFilter = \<lparr>Q = 1 / 8, R = 4, estimate = referenceRssi m,
             errorCovariance = (1 - (p + 1 / 8) / (p + 1 / 8 + 4)) * (p + 1 / 8), sampleCount = n + 1\<rparr>,
            rawHistory = h @ [\<lparr>rssi = referenceRssi m, timestamp = now\<rparr>], maxHistoryLength = 50\<rparr>"
  using assms by (simp add: estimateDistance_def Let_def split_beta update_def)

lemma two_readings:
  assumes "minRssi m \<le> referenceRssi m" and "referenceRssi m \<le> maxRssi m"
  shows "snd (estimateDistance (referenceRssi m) True 20 (snd (estimateDistance (referenceRssi m) True 10
     \<lparr>model = m, kalmanFilter = KalmanFilter_new (1 / 8) 4 (referenceRssi m) 1, rawHistory = [], maxHistoryLength = 50\<rparr>))) = twice_at_reference m"
  using assms by (simp add: KalmanFilter_new_def reading_at_reference twice_at_reference_def)

lemma update_fresh_last:
  "map_of al k = None \<Longrightarrow> AList.update k v (al @ [(k, w)]) = al @ [(k, v)]"
  by (induction al) (auto split: if_splits)

lemma update_fresh_middle:
  "k \<notin> fst ` set xs \<Longrightarrow> AList.update k v (xs @ (k, w) # ys) = xs @ (k, v) # ys"
  by (induction xs) auto

lemma update_put_new:
  assumes "map_of al k = None"
  shows "AList.update k v (put_new k w al) = put_new k v al"
proof (cases "is_array_index k")
  case True
  from assms have "k \<notin> fst ` set al"
    by (simp add: map_of_eq_None_iff)
  then have "k \<notin> fst ` set (takeWhile (comes_before k) al)"
    by (auto dest: set_takeWhileD)
  then show ?thesis
    using True by (simp add: put_new_def update_fresh_middle)
next
  case False
  then show ?thesis
    using assms by (simp add: put_new_def update_fresh_last)
qed

lemma set_put_new: "set (put_new k v al) = insert (k, v) (set al)"
proof -
  have "set (takeWhile (comes_before k) al) \<union> set (dropWhile (comes_before k) al) = set al"
    by (metis set_append takeWhile_dropWhile_id)
  then show ?thesis
    by (auto simp add: put_new_def)
qed

lemma after_addReading_eq:
  "after_addReading k r now ms =
     (case map_of (estimators ms) k of
        Some e \<Rightarrow>
          ms\<lparr>estimators := AList.update k (snd (estimateDistance r True now e)) (estimators ms)\<rparr>
      | None \<Rightarrow>
          if k \<in> set Object_prototype_keys then ms
          else ms\<lparr>estimators :=
                 put_new k (snd (estimateDistance r True now (DistanceEstimator_new k None)))
                   (estimators ms)\<rparr>)"
  by (simp add: after_addReading_def addReading_def getEstimator_def Let_def split_beta
      update_put_new split: option.split)

lemma builtin_keys:
  "''BLE'' \<notin> set Object_prototype_keys" "\<not> is_array_index ''BLE''"
  "''WIFI_2G'' \<notin> set Object_prototype_keys" "\<not> is_array_index ''WIFI_2G''"
  "''WIFI_5G'' \<notin> set Object_prototype_keys" "\<not> is_array_index ''WIFI_5G''"
  "''LORA'' \<notin> set Object_prototype_keys" "\<not> is_array_index ''LORA''"
  by (simp_all add: Object_prototype_keys_def is_array_index_def)

lemma models_in_range:
  "minRssi BLE \<le> referenceRssi BLE" "referenceRssi BLE \<le> maxRssi BLE"
  "minRssi WIFI_2G \<le> referenceRssi WIFI_2G" "referenceRssi WIFI_2G \<le> maxRssi WIFI_2G"
  "minRssi WIFI_5G \<le> referenceRssi WIFI_5G" "referenceRssi WIFI_5G \<le> maxRssi WIFI_5G"
  "minRssi LORA \<le> referenceRssi LORA" "referenceRssi LORA \<le> maxRssi LORA"
  by (simp_all add: BLE_def WIFI_2G_def WIFI_5G_def LORA_def)

lemma two_addReadings:
  assumes "map_of (estimators ms) k = None" and "model (DistanceEstimator_new k None) = m"
    and "minRssi m \<le> referenceRssi m" and "referenceRssi m \<le> maxRssi m"
    and "k \<notin> set Object_prototype_keys" and "\<not> is_array_index k"
  shows "after_addReading k (referenceRssi m) 20 (after_addReading k (referenceRssi m) 10 ms) =
     ms\<lparr>estimators := estimators ms @ [(k, twice_at_reference m)]\<rparr>"
proof -
  let ?new = "\<lparr>model = m, kalmanFilter = KalmanFilter_new (1 / 8) 4 (referenceRssi m) 1,
      rawHistory = [], maxHistoryLength = 50\<rparr>"
  let ?e1 = "snd (estimateDistance (referenceRssi m) True 10 ?new)"
  let ?ms1 = "ms\<lparr>estimators := estimators ms @ [(k, ?e1)]\<rparr>"
  have new: "DistanceEstimator_new k None = ?new"
    using assms(2) by (simp add: DistanceEstimator_new_def Let_def)
  have 1: "after_addReading k (referenceRssi m) 10 ms = ?ms1"
    using assms(1,5,6) by (simp add: after_addReading_eq new put_new_def)
  have "map_of (estimators ?ms1) k = Some ?e1"
    using assms(1) by (simp add: map_add_def)
  then have "after_addReading k (referenceRssi m) 20 ?ms1 =
      ?ms1\<lparr>estimators :=
        AList.update k (snd (estimateDistance (referenceRssi m) True 20 ?e1)) (estimators ?ms1)\<rparr>"
    by (simp only: after_addReading_eq option.case)
  also have "\<dots> = ms\<lparr>estimators := estimators ms @ [(k, twice_at_reference m)]\<rparr>"
    using assms(1) by (simp add: update_fresh_last two_readings [OF assms(3,4)])
  finally show ?thesis by (simp only: 1)
qed

lemma new_models:
  "model (DistanceEstimator_new ''BLE'' None) = BLE"
  "model (DistanceEstimator_new ''WIFI_2G'' None) = WIFI_2G"
  "model (DistanceEstimator_new ''WIFI_5G'' None) = WIFI_5G"
  "model (DistanceEstimator_new ''LORA'' None) = LORA"
  by (simp_all add: DistanceEstimator_new_def SignalModels_def)

lemma four_radio_state_val:
  "four_radio_state =
     MultiRadioEstimator_new\<lparr>estimators :=
       [(''BLE'', twice_at_reference BLE), (''WIFI_2G'', twice_at_reference WIFI_2G),
        (''WIFI_5G'', twice_at_reference WIFI_5G), (''LORA'', twice_at_reference LORA)]\<rparr>"
proof -
  let ?st = "\<lambda>es. MultiRadioEstimator_new\<lparr>estimators := es\<rparr>"
  let ?b = "(''BLE'', twice_at_reference BLE)"
  let ?w2 = "(''WIFI_2G'', twice_at_reference WIFI_2G)"
  let ?w5 = "(''WIFI_5G'', twice_at_reference WIFI_5G)"
  let ?l = "(''LORA'', twice_at_reference LORA)"
  have 1: "after_addReading ''BLE'' (referenceRssi BLE) 20
      (after_addReading ''BLE'' (referenceRssi BLE) 10 MultiRadioEstimator_new) = ?st [?b]"
    using two_addReadings [of MultiRadioEstimator_new "''BLE''" BLE,
        OF _ new_models(1) models_in_range(1,2) builtin_keys(1,2)]
    by (simp add: MultiRadioEstimator_new_def)
  have 2: "after_addReading ''WIFI_2G'' (referenceRssi WIFI_2G) 20
      (after_addReading ''WIFI_2G'' (referenceRssi WIFI_2G) 10 (?st [?b])) = ?st [?b, ?w2]"
    using two_addReadings [of "?st [?b]" "''WIFI_2G''" WIFI_2G,
        OF _ new_models(2) models_in_range(3,4) builtin_keys(3,4)]
    by simp
  have 3: "after_addReading ''WIFI_5G'' (referenceRssi WIFI_5G) 20
      (after_addReading ''WIFI_5G'' (referenceRssi WIFI_5G) 10 (?st [?b, ?w2])) = ?st [?b, ?w2, ?w5]"
    using two_addReadings [of "?st [?b, ?w2]" "''WIFI_5G''" WIFI_5G,
        OF _ new_models(3) models_in_range(5,6) builtin_keys(5,6)]
    by simp
  have 4: "after_addReading ''LORA'' (referenceRssi LORA) 20
      (after_addReading ''LORA'' (referenceRssi LORA) 10 (?st [?b, ?w2, ?w5])) = ?st [?b, ?w2, ?w5, ?l]"
    using two_addReadings [of "?st [?b, ?w2, ?w5]" "''LORA''" LORA,
        OF _ new_models(4) models_in_range(7,8) builtin_keys(7,8)]
    by simp
  show ?thesis
    unfolding four_radio_state_def by (simp only: 1 2 3 4)
qed

lemma Math_round_eq:
  "real_of_int n \<le> x + 1 / 2 \<Longrightarrow> x + 1 / 2 < real_of_int n + 1 \<Longrightarrow> Math_round x = real_of_int n"
  unfolding Math_round_def by (simp add: floor_unique)

lemma getStats_filteredRssi:
  "rawHistory e \<noteq> [] \<Longrightarrow>
   filteredRssi_s (getStats e) = Val (Math_round (estimate (kalmanFilter e) * 10) / 10)"
  by (simp add: getStats_def Let_def)

lemma estimate_at_reference:
  assumes "minRssi m \<le> referenceRssi m" and "referenceRssi m \<le> maxRssi m"
    and "referenceDistance m = 1" and "11 \<le> maxReliableDistance m"
  shows "confidence (fst (estimateDistance (referenceRssi m) False now (twice_at_reference m))) = 8 / 10"
    and "distance (fst (estimateDistance (referenceRssi m) False now (twice_at_reference m))) = Val 1"
proof -
  have M: "0 < 10 / maxReliableDistance m" "10 / maxReliableDistance m \<le> 10 / 11"
    using assms(4) by (simp_all add: field_simps)
  have "Math_round (264185 / 3282 - 10 / maxReliableDistance m) = real_of_int 80"
    using M by (intro Math_round_eq) linarith+
  moreover have "confidence (fst (estimateDistance (referenceRssi m) False now (twice_at_reference m)))
      = Math_round (264185 / 3282 - 10 / maxReliableDistance m) / 100"
    using assms
    by (simp add: estimateDistance_def Let_def split_beta twice_at_reference_def calculateConfidence_def
        calculateRssiStability_def getConfidence_def)
  ultimately show "confidence (fst (estimateDistance (referenceRssi m) False now (twice_at_reference m))) = 8 / 10"
    by simp
  show "distance (fst (estimateDistance (referenceRssi m) False now (twice_at_reference m))) = Val 1"
    using assms by (simp add: estimateDistance_def Let_def split_beta twice_at_reference_def Math_round_def)
qed

lemma estimate_after_refresh:
  assumes "minRssi m \<le> referenceRssi m" and "referenceRssi m \<le> maxRssi m"
    and "referenceDistance m = 1" and "21 \<le> maxReliableDistance m"
  shows "confidence (fst (estimateDistance (referenceRssi m) False now
     ((twice_at_reference m)\<lparr>rawHistory := rawHistory (twice_at_reference m)
         @ [\<lparr>rssi = referenceRssi m, timestamp = t\<rparr>]\<rparr>))) = 83 / 100"
proof -
  have M: "0 < 10 / maxReliableDistance m" "10 / maxReliableDistance m \<le> 10 / 21"
    using assms(4) by (simp_all add: field_simps)
  have "Math_round (136195 / 1641 - 10 / maxReliableDistance m) = real_of_int 83"
    using M by (intro Math_round_eq) linarith+
  moreover have "confidence (fst (estimateDistance (referenceRssi m) False now
     ((twice_at_reference m)\<lparr>rawHistory := rawHistory (twice_at_reference m)
         @ [\<lparr>rssi = referenceRssi m, timestamp = t\<rparr>]\<rparr>)))
      = Math_round (136195 / 1641 - 10 / maxReliableDistance m) / 100"
    using assms
    by (simp add: estimateDistance_def Let_def split_beta twice_at_reference_def
        calculateConfidence_def calculateRssiStability_def getConfidence_def)
  ultimately show ?thesis by simp
qed


lemma builtin_reference:
  "referenceDistance BLE = 1" "11 \<le> maxReliableDistance BLE"
  "Math_round (referenceRssi BLE * 10) / 10 = referenceRssi BLE"
  "referenceDistance WIFI_2G = 1" "11 \<le> maxReliableDistance WIFI_2G"
  "Math_round (referenceRssi WIFI_2G * 10) / 10 = referenceRssi WIFI_2G"
  "referenceDistance WIFI_5G = 1" "11 \<le> maxReliableDistance WIFI_5G"
  "Math_round (referenceRssi WIFI_5G * 10) / 10 = referenceRssi WIFI_5G"
  "referenceDistance LORA = 1" "11 \<le> maxReliableDistance LORA"
  "Math_round (referenceRssi LORA * 10) / 10 = referenceRssi LORA"
  by (simp_all add: BLE_def WIFI_2G_def WIFI_5G_def LORA_def Math_round_def)


lemma reachable_four_radio_state: "reachable four_radio_state"
  unfolding four_radio_state_def by (intro reachable.intros)











lemma collect_snd:
  "snd (collect nows fw es) = map (\<lambda>(k, e). (k, refreshed (nows k) e)) es"
proof (induction es)
  case Nil
  show ?case by simp
next
  case (Cons a es)
  obtain k e where a: "a = (k, e)" by (cases a)
  show ?case
  proof (cases "rawHistory e = []")
    case True
    then show ?thesis
      using Cons.IH by (simp add: a split_beta Let_def getStats_samples refreshed_def)
  next
    case False
    then show ?thesis
      using Cons.IH
      by (simp add: a split_beta Let_def getStats_samples getStats_filteredRssi refreshed_def
          split: js.splits)
  qed
qed

lemma getFusedEstimate_estimators:
  "estimators (snd (getFusedEstimate nows ms)) =
     map (\<lambda>(k, e). (k, refreshed (nows k) e)) (estimators ms)"
  by (simp add: getFusedEstimate_def split_beta Let_def collect_snd)

lemma refreshed_model: "model (refreshed now e) = model e"
  by (simp add: refreshed_def estimateDistance_frame)


lemma set_update_subset: "set (AList.update k v al) \<subseteq> insert (k, v) (set al)"
  by (induction al) auto


text \<open>
  No method of \<open>MultiRadioEstimator\<close> assigns to a model: in every reachable state each
  estimator still has the table's entry for its radio type, so that the table these
  estimators share is the one the module starts with.
\<close>

lemma reachable_model_is_table_entry:
  "reachable ms \<Longrightarrow>
   \<forall>(k, e) \<in> set (estimators ms). model e = model (DistanceEstimator_new k None)"
proof (induction rule: reachable.induct)
  case reachable_new
  show ?case by (simp add: MultiRadioEstimator_new_def)
next
  case (reachable_addReading ms radioType r now)
  show ?case
  proof (cases "map_of (estimators ms) radioType")
    case None
    then show ?thesis
      using reachable_addReading.IH
      by (simp add: after_addReading_eq set_put_new estimateDistance_frame)
  next
    case (Some e)
    then have "(radioType, e) \<in> set (estimators ms)"
      by (rule map_of_SomeD)
    with reachable_addReading.IH
    have "model (snd (estimateDistance r True now e)) = model (DistanceEstimator_new radioType None)"
      by (auto simp add: estimateDistance_frame)
    then show ?thesis
      using reachable_addReading.IH Some
        set_update_subset [of radioType "snd (estimateDistance r True now e)" "estimators ms"]
      by (auto simp add: after_addReading_eq)
  qed
next
  case (reachable_getFusedEstimate ms nows)
  then show ?case
    by (auto simp add: getFusedEstimate_estimators refreshed_model)
next
  case (reachable_reset ms)
  then show ?case
    by (auto simp add: reset_multi_def reset_estimator_def)
qed











lemma estimateDistance_unfiltered_state:
  assumes "minRssi (model e) \<le> r" and "r \<le> maxRssi (model e)"
  shows "snd (estimateDistance r False now e) =
     e\<lparr>rawHistory :=
         (if maxHistoryLength e < length (rawHistory e) + 1
          then tl (rawHistory e @ [\<lparr>rssi = r, timestamp = now\<rparr>])
          else rawHistory e @ [\<lparr>rssi = r, timestamp = now\<rparr>])\<rparr>"
  using assms by (simp add: estimateDistance_def Let_def)

text \<open>
  C9. \<open>getFusedEstimate\<close> is not a read-only query. For the estimator at any position of
  \<open>this.estimators\<close> that has at least one sample and whose filtered RSSI, as \<open>getStats\<close>
  reports it (rounded to one decimal), is in range, the call stores that value with the
  clock reading of the call at the end of the history, dropping the oldest entry when
  the history is full, so that \<open>getStats().samples\<close> grows by one up to the cap of 50; the
  filter and the model stay as they were. Confidence scores computed afterwards can
  differ as a result: in \<open>four_radio_state\<close> the same unfiltered call on the BLE estimator
  gives 0.8 before a fused estimate and 0.83 after it.
\<close>

theorem getFusedEstimate_records_readings:
  "(i < length (estimators ms) \<and> estimators ms ! i = (k, e) \<and> rawHistory e \<noteq> []
      \<and> minRssi (model e) \<le> Math_round (estimate (kalmanFilter e) * 10) / 10
      \<and> Math_round (estimate (kalmanFilter e) * 10) / 10 \<le> maxRssi (model e)
      \<and> maxHistoryLength e = 50 \<and> length (rawHistory e) \<le> 50 \<longrightarrow>
    (\<exists>e'. estimators (snd (getFusedEstimate nows ms)) ! i = (k, e')
       \<and> rawHistory e' =
           (if length (rawHistory e) < 50 then rawHistory e else tl (rawHistory e))
           @ [\<lparr>rssi = Math_round (estimate (kalmanFilter e) * 10) / 10, timestamp = nows k\<rparr>]
       \<and> samples (getStats e') = min 50 (samples (getStats e) + 1)
       \<and> kalmanFilter e' = kalmanFilter e \<and> model e' = model e))
   \<and> (\<exists>ms0 nows0 k0 e0 e1 r t. reachable ms0
         \<and> map_of (estimators ms0) k0 = Some e0
         \<and> map_of (estimators (snd (getFusedEstimate nows0 ms0))) k0 = Some e1
         \<and> samples (getStats e1) = samples (getStats e0) + 1
         \<and> confidence (fst (estimateDistance r False t e1))
             \<noteq> confidence (fst (estimateDistance r False t e0)))"
proof (intro conjI impI)
  let ?f = "Math_round (estimate (kalmanFilter e) * 10) / 10"
  let ?new = "\<lparr>rssi = ?f, timestamp = nows k\<rparr>"
  assume a: "i < length (estimators ms) \<and> estimators ms ! i = (k, e) \<and> rawHistory e \<noteq> []
      \<and> minRssi (model e) \<le> ?f \<and> ?f \<le> maxRssi (model e)
      \<and> maxHistoryLength e = 50 \<and> length (rawHistory e) \<le> 50"
  let ?e' = "refreshed (nows k) e"
  from a have i: "estimators (snd (getFusedEstimate nows ms)) ! i = (k, ?e')"
    by (simp add: getFusedEstimate_estimators)
  from a have e': "?e' = e\<lparr>rawHistory :=
       (if length (rawHistory e) < 50 then rawHistory e else tl (rawHistory e)) @ [?new]\<rparr>"
    by (auto simp add: refreshed_def estimateDistance_unfiltered_state)
  have "rawHistory ?e' = (if length (rawHistory e) < 50 then rawHistory e else tl (rawHistory e)) @ [?new]"
    by (simp add: e')
  moreover from a have "samples (getStats ?e') = min 50 (samples (getStats e) + 1)"
    by (auto simp add: e' getStats_samples)
  moreover have "kalmanFilter ?e' = kalmanFilter e" "model ?e' = model e"
    by (simp_all add: e')
  ultimately show "\<exists>e'. estimators (snd (getFusedEstimate nows ms)) ! i = (k, e')
       \<and> rawHistory e' =
           (if length (rawHistory e) < 50 then rawHistory e else tl (rawHistory e)) @ [?new]
       \<and> samples (getStats e') = min 50 (samples (getStats e) + 1)
       \<and> kalmanFilter e' = kalmanFilter e \<and> model e' = model e"
    using i by blast
next
  let ?e0 = "twice_at_reference BLE"
  let ?e1 = "?e0\<lparr>rawHistory := rawHistory ?e0 @ [\<lparr>rssi = referenceRssi BLE, timestamp = 30\<rparr>]\<rparr>"
  have r: "refreshed 30 ?e0 = ?e1"
  proof -
    have f: "Math_round (estimate (kalmanFilter ?e0) * 10) / 10 = referenceRssi BLE"
      by (simp add: twice_at_reference_def builtin_reference(3))
    have range: "minRssi (model ?e0) \<le> referenceRssi BLE" "referenceRssi BLE \<le> maxRssi (model ?e0)"
      by (simp_all add: twice_at_reference_def models_in_range)
    have "refreshed 30 ?e0 = snd (estimateDistance (referenceRssi BLE) False 30 ?e0)"
      by (simp add: refreshed_def f) (simp add: twice_at_reference_def)
    also have "\<dots> = ?e1"
      using estimateDistance_unfiltered_state [OF range, of 30]
      by (simp add: twice_at_reference_def)
    finally show ?thesis .
  qed
  have 0: "map_of (estimators four_radio_state) ''BLE'' = Some ?e0"
    by (simp add: four_radio_state_val)
  have 1: "map_of (estimators (snd (getFusedEstimate (\<lambda>k. 30) four_radio_state))) ''BLE'' = Some ?e1"
    by (simp add: getFusedEstimate_estimators four_radio_state_val r)
  have 2: "samples (getStats ?e1) = samples (getStats ?e0) + 1"
    by (simp add: getStats_samples)
  have c0: "confidence (fst (estimateDistance (referenceRssi BLE) False 40 ?e0)) = 8 / 10"
    by (rule estimate_at_reference) (simp_all add: models_in_range builtin_reference)
  have c1: "confidence (fst (estimateDistance (referenceRssi BLE) False 40 ?e1)) = 83 / 100"
    by (rule estimate_after_refresh) (simp_all add: models_in_range BLE_def)
  have d: "confidence (fst (estimateDistance (referenceRssi BLE) False 40 ?e1))
      \<noteq> confidence (fst (estimateDistance (referenceRssi BLE) False 40 ?e0))"
    by (simp only: c0 c1)
  have "reachable four_radio_state
         \<and> map_of (estimators four_radio_state) ''BLE'' = Some ?e0
         \<and> map_of (estimators (snd (getFusedEstimate (\<lambda>k. 30) four_radio_state))) ''BLE'' = Some ?e1
         \<and> samples (getStats ?e1) = samples (getStats ?e0) + 1
         \<and> confidence (fst (estimateDistance (referenceRssi BLE) False 40 ?e1))
             \<noteq> confidence (fst (estimateDistance (referenceRssi BLE) False 40 ?e0))"
    using reachable_four_radio_state 0 1 2 d by (intro conjI)
  then show "\<exists>ms0 nows0 k0 e0 e1 r t. reachable ms0
         \<and> map_of (estimators ms0) k0 = Some e0
         \<and> map_of (estimators (snd (getFusedEstimate nows0 ms0))) k0 = Some e1
         \<and> samples (getStats e1) = samples (getStats e0) + 1
         \<and> confidence (fst (estimateDistance r False t e1))
             \<noteq> confidence (fst (estimateDistance r False t e0))"
    by (intro exI)
qed

theorem getFusedEstimate_records_readings_witness:
  "(\<exists>e'. estimators (snd (getFusedEstimate (\<lambda>k. 30) four_radio_state)) ! 0 = (''BLE'', e')
       \<and> rawHistory e' = rawHistory (twice_at_reference BLE)
            @ [\<lparr>rssi = referenceRssi BLE, timestamp = 30\<rparr>]
       \<and> samples (getStats e') = 3
       \<and> kalmanFilter e' = kalmanFilter (twice_at_reference BLE) \<and> model e' = BLE)
   \<and> (\<exists>ms0 nows0 k0 e0 e1 r t. reachable ms0
         \<and> map_of (estimators ms0) k0 = Some e0
         \<and> map_of (estimators (snd (getFusedEstimate nows0 ms0))) k0 = Some e1
         \<and> samples (getStats e1) = samples (getStats e0) + 1
         \<and> confidence (fst (estimateDistance r False t e1))
             \<noteq> confidence (fst (estimateDistance r False t e0)))"
proof -
  let ?e0 = "twice_at_reference BLE"
  have f: "Math_round (estimate (kalmanFilter ?e0) * 10) / 10 = referenceRssi BLE"
    by (simp add: twice_at_reference_def builtin_reference(3))
  have e0: "length (rawHistory ?e0) = 2" "samples (getStats ?e0) = 2" "model ?e0 = BLE"
    "maxHistoryLength ?e0 = 50"
    by (simp_all add: getStats_samples twice_at_reference_def)
  have h: "0 < length (estimators four_radio_state)
      \<and> estimators four_radio_state ! 0 = (''BLE'', ?e0) \<and> rawHistory ?e0 \<noteq> []
      \<and> minRssi (model ?e0) \<le> Math_round (estimate (kalmanFilter ?e0) * 10) / 10
      \<and> Math_round (estimate (kalmanFilter ?e0) * 10) / 10 \<le> maxRssi (model ?e0)
      \<and> maxHistoryLength ?e0 = 50 \<and> length (rawHistory ?e0) \<le> 50"
    unfolding f e0 by (simp add: four_radio_state_val models_in_range) (simp add: twice_at_reference_def)
  show ?thesis
    using getFusedEstimate_records_readings [of 0 four_radio_state "''BLE''" ?e0 "\<lambda>k. 30"] h
    by (simp add: f e0)
qed

end
